theory Spec2Isabelle
  imports Main "HOL-Library.AList" "HOL-Library.Sublist"
begin

section \<open>Python values, exceptions and the two collaborators\<close>

text \<open>
  The module \<^verbatim>\<open>hetzner/server.py\<close> works on decoded JSON documents handed out by
  the transport (\<^verbatim>\<open>conn\<close>) and on HTML pages handed out by the scraping session.
  A decoded document is a Python value built from \<^verbatim>\<open>None\<close>, booleans, integers,
  strings, lists and dictionaries. Python's \<^verbatim>\<open>None\<close> is \<open>JNull\<close>; a dictionary is
  an association list in insertion order.
\<close>

datatype json =
    JNull
  | JBool bool
  | JInt int
  | JStr string
  | JList "json list"
  | JObj "(string \<times> json) list"

text \<open>
  The exceptions that the modelled code can raise or let through. \<open>RobotError\<close>
  carries the status of the provider error, which is \<^verbatim>\<open>None\<close> when the error was
  raised without one, and its message. \<^verbatim>\<open>WebRobotError\<close> is a subclass of
  \<^verbatim>\<open>RobotError\<close>; it is raised with a message only, so its status is \<^verbatim>\<open>None\<close>.
  \<open>Other\<close> stands for any exception of a collaborator that is not a
  \<^verbatim>\<open>RobotError\<close>.
\<close>

datatype py_error =
    RobotError "int option" string
  | WebRobotError string
  | KeyError string
  | TypeError
  | AttributeError string
  | UnboundLocalError string
  | AssertionError
  | UnicodeDecodeError
  | ValueError
  | AddressFormatError
  | Other string

text \<open>\<^verbatim>\<open>data[key]\<close> with a string key: only a dictionary can answer it.\<close>

fun getitem :: "json \<Rightarrow> string \<Rightarrow> py_error + json" where
  "getitem (JObj kvs) k = (case map_of kvs k of None \<Rightarrow> Inl (KeyError k) | Some v \<Rightarrow> Inr v)"
| "getitem _ k = Inl TypeError"

text \<open>\<^verbatim>\<open>data[key] = v\<close>: item assignment, again on dictionaries only.\<close>

fun setitem :: "json \<Rightarrow> string \<Rightarrow> json \<Rightarrow> py_error + json" where
  "setitem (JObj kvs) k v = Inr (JObj (AList.update k v kvs))"
| "setitem _ k v = Inl TypeError"

text \<open>Truth value of a Python object, as \<^verbatim>\<open>if x:\<close> and \<^verbatim>\<open>not x\<close> test it.\<close>

fun truthy :: "json \<Rightarrow> bool" where
  "truthy JNull = False"
| "truthy (JBool b) = b"
| "truthy (JInt i) = (i \<noteq> 0)"
| "truthy (JStr s) = (s \<noteq> [])"
| "truthy (JList xs) = (xs \<noteq> [])"
| "truthy (JObj kvs) = (kvs \<noteq> [])"

text \<open>
  What a \<^verbatim>\<open>for x in v\<close> loop or \<^verbatim>\<open>list(v)\<close> runs over: the elements of a list,
  the keys of a dictionary, the characters of a string; anything else is not iterable.
\<close>

fun py_iter :: "json \<Rightarrow> py_error + json list" where
  "py_iter (JList xs) = Inr xs"
| "py_iter (JObj kvs) = Inr (map (\<lambda>kv. JStr (fst kv)) kvs)"
| "py_iter (JStr s) = Inr (map (\<lambda>c. JStr [c]) s)"
| "py_iter _ = Inl TypeError"

text \<open>\<^verbatim>\<open>v + "..."\<close>: concatenation when \<open>v\<close> is a string, a \<^verbatim>\<open>TypeError\<close> otherwise.\<close>

fun py_add_str :: "json \<Rightarrow> string \<Rightarrow> py_error + json" where
  "py_add_str (JStr s) t = Inr (JStr (s @ t))"
| "py_add_str _ t = Inl TypeError"

text \<open>
  Remote paths. Every path of the source is an f-string with one interpolated value;
  the constructor names the template and keeps the value, so that two paths are equal
  when template and value are.
  \<^item> \<open>BootRescuePath n\<close>: \<^verbatim>\<open>/boot/{n}/rescue\<close>
  \<^item> \<open>AdminPath i\<close>: \<^verbatim>\<open>/server/admin/id/{i}\<close>
  \<^item> \<open>AdminCreatePath i\<close>: \<^verbatim>\<open>/server/adminCreate/id/{i}\<close>
  \<^item> \<open>AdminUpdatePath\<close>: \<^verbatim>\<open>/server/adminUpdate\<close>
  \<^item> \<open>AdminDeletePath i\<close>: \<^verbatim>\<open>/server/adminDelete/id/{i}\<close>
  \<^item> \<open>IpPath a\<close>: \<^verbatim>\<open>/ip/{a}\<close>
  \<^item> \<open>IpCollectionPath a\<close>: \<^verbatim>\<open>/ip?\<close> followed by \<^verbatim>\<open>urlencode({"server_ip": a})\<close>
  \<^item> \<open>SubnetPath a\<close>: \<^verbatim>\<open>/subnet/{a}\<close>
  \<^item> \<open>SubnetCollectionPath a\<close>: \<^verbatim>\<open>/subnet?\<close> followed by \<^verbatim>\<open>urlencode({"server_ip": a})\<close>
  \<^item> \<open>ServerPath a\<close>: \<^verbatim>\<open>/server/{a}\<close>
\<close>

datatype path =
    BootRescuePath json
  | AdminPath json
  | AdminCreatePath json
  | AdminUpdatePath
  | AdminDeletePath json
  | IpPath json
  | IpCollectionPath json
  | SubnetPath json
  | SubnetCollectionPath json
  | ServerPath json

text \<open>
  One entry of the request log per call on a collaborator:
  \<^verbatim>\<open>conn.get(path)\<close>, \<^verbatim>\<open>conn.post(path, data)\<close>, \<^verbatim>\<open>conn.request(method, path, opts)\<close>,
  \<^verbatim>\<open>scraper.login()\<close> and \<^verbatim>\<open>scraper.request(path, data, method)\<close> (an argument
  left out is \<open>None\<close>).
\<close>

datatype request =
    Get path
  | Post path json
  | Request string path "json option"
  | ScraperLogin
  | ScraperRequest path "(string \<times> json) list option" "string option"

text \<open>A request that changes the remote side: everything but a plain \<^verbatim>\<open>get\<close>
  on the structured API.\<close>

fun is_mutation :: "request \<Rightarrow> bool" where
  "is_mutation (Post p d) = True"
| "is_mutation (Request m p opts) = True"
| "is_mutation _ = False"

text \<open>
  A scraped response: its status code and its body. \<^verbatim>\<open>response.read().decode("utf-8")\<close>
  gives the text, or raises when the body is not UTF-8 (\<open>body = None\<close>).
\<close>

record response =
  status :: int
  body :: "string option"

definition read_decode :: "response \<Rightarrow> py_error + string" where
  "read_decode r = (case body r of None \<Rightarrow> Inl UnicodeDecodeError | Some s \<Rightarrow> Inr s)"

text \<open>
  The collaborators are outside the module; they are a parameter of every operation.
  The remote side has a state \<open>'w\<close>; a call answers with a value or an exception and
  moves the state.
\<close>

record 'w transport =
  conn_answer :: "'w \<Rightarrow> request \<Rightarrow> (py_error + json) \<times> 'w"
  scraper_login_answer :: "'w \<Rightarrow> (py_error + unit) \<times> 'w"
  scraper_answer :: "'w \<Rightarrow> request \<Rightarrow> (py_error + response) \<times> 'w"

text \<open>The network as seen by the program: the remote state and the requests sent
  so far, oldest first.\<close>

record 'w net =
  world :: 'w
  sent :: "request list"

definition conn_call :: "'w transport \<Rightarrow> request \<Rightarrow> 'w net \<Rightarrow> (py_error + json) \<times> 'w net" where
  "conn_call T rq n =
     (case conn_answer T (world n) rq of
        (r, w') \<Rightarrow> (r, \<lparr>world = w', sent = sent n @ [rq]\<rparr>))"

definition conn_get :: "'w transport \<Rightarrow> path \<Rightarrow> 'w net \<Rightarrow> (py_error + json) \<times> 'w net" where
  "conn_get T p n = conn_call T (Get p) n"

definition conn_request ::
  "'w transport \<Rightarrow> string \<Rightarrow> path \<Rightarrow> json option \<Rightarrow> 'w net \<Rightarrow> (py_error + json) \<times> 'w net" where
  "conn_request T m p opts n = conn_call T (Request m p opts) n"

definition scraper_login :: "'w transport \<Rightarrow> 'w net \<Rightarrow> (py_error + unit) \<times> 'w net" where
  "scraper_login T n =
     (case scraper_login_answer T (world n) of
        (r, w') \<Rightarrow> (r, \<lparr>world = w', sent = sent n @ [ScraperLogin]\<rparr>))"

definition scraper_request ::
  "'w transport \<Rightarrow> path \<Rightarrow> (string \<times> json) list option \<Rightarrow> string option \<Rightarrow> 'w net
     \<Rightarrow> (py_error + response) \<times> 'w net" where
  "scraper_request T p d m n =
     (case scraper_answer T (world n) (ScraperRequest p d m) of
        (r, w') \<Rightarrow> (r, \<lparr>world = w', sent = sent n @ [ScraperRequest p d m]\<rparr>))"

text \<open>
  A run of assignments \<^verbatim>\<open>self.f = data[k]\<close>, one after the other: the first missing
  key raises, and the assignments made before it stay.
\<close>

fun assign_all ::
  "(string \<times> (json \<Rightarrow> 'o \<Rightarrow> 'o)) list \<Rightarrow> json \<Rightarrow> 'o \<Rightarrow> (py_error + unit) \<times> 'o" where
  "assign_all [] d ob = (Inr (), ob)"
| "assign_all ((k, put) # rest) d ob =
     (case getitem d k of
        Inl e \<Rightarrow> (Inl e, ob)
      | Inr v \<Rightarrow> assign_all rest d (put v ob))"

section \<open>RescueSystem\<close>

text \<open>
  The three cached fields \<^verbatim>\<open>_active\<close>, \<^verbatim>\<open>_password\<close>, \<^verbatim>\<open>_authorized_keys\<close>.
  \<^verbatim>\<open>self.server.number\<close> is read from the owning server at each call and is the
  argument \<open>number\<close> of the operations.
\<close>

record RescueSystem =
  rs_active :: json
  rs_password :: json
  rs_authorized_keys :: json

definition RescueSystem_init :: RescueSystem where
  "RescueSystem_init = \<lparr>rs_active = JNull, rs_password = JNull, rs_authorized_keys = JNull\<rparr>"

definition RescueSystem_update_status ::
  "'w transport \<Rightarrow> json \<Rightarrow> json \<Rightarrow> RescueSystem \<Rightarrow> 'w net
     \<Rightarrow> (py_error + unit) \<times> RescueSystem \<times> 'w net" where
  "RescueSystem_update_status T number data rs n =
     (case (if data = JNull then conn_get T (BootRescuePath number) n else (Inr data, n)) of
        (Inl e, n') \<Rightarrow> (Inl e, rs, n')
      | (Inr data', n') \<Rightarrow>
          (case getitem data' ''rescue'' of
             Inl e \<Rightarrow> (Inl e, rs, n')
           | Inr rescue \<Rightarrow>
               (case assign_all
                       [(''active'', \<lambda>v r. r\<lparr>rs_active := v\<rparr>),
                        (''password'', \<lambda>v r. r\<lparr>rs_password := v\<rparr>),
                        (''authorized_key'', \<lambda>v r. r\<lparr>rs_authorized_keys := v\<rparr>)]
                       rescue rs of
                  (r, rs') \<Rightarrow> (r, rs', n'))))"

text \<open>The three properties: the cached field when it is not \<^verbatim>\<open>None\<close>, otherwise
  a status fetch and then the field.\<close>

definition RescueSystem_property ::
  "(RescueSystem \<Rightarrow> json) \<Rightarrow> 'w transport \<Rightarrow> json \<Rightarrow> RescueSystem \<Rightarrow> 'w net
     \<Rightarrow> (py_error + json) \<times> RescueSystem \<times> 'w net" where
  "RescueSystem_property field T number rs n =
     (if field rs \<noteq> JNull then (Inr (field rs), rs, n)
      else
        (case RescueSystem_update_status T number JNull rs n of
           (Inl e, rs', n') \<Rightarrow> (Inl e, rs', n')
         | (Inr u, rs', n') \<Rightarrow> (Inr (field rs'), rs', n')))"

definition RescueSystem_active where
  "RescueSystem_active = RescueSystem_property rs_active"

definition RescueSystem_password where
  "RescueSystem_password = RescueSystem_property rs_password"

definition RescueSystem_authorized_keys where
  "RescueSystem_authorized_keys = RescueSystem_property rs_authorized_keys"

definition RescueSystem_rescue_action ::
  "'w transport \<Rightarrow> json \<Rightarrow> string \<Rightarrow> json option \<Rightarrow> RescueSystem \<Rightarrow> 'w net
     \<Rightarrow> (py_error + unit) \<times> RescueSystem \<times> 'w net" where
  "RescueSystem_rescue_action T number method opts rs n =
     (case conn_request T method (BootRescuePath number) opts n of
        (Inl e, n') \<Rightarrow> (Inl e, rs, n')
      | (Inr reply, n') \<Rightarrow> RescueSystem_update_status T number reply rs n')"

text \<open>
  \<^verbatim>\<open>activate(bits=64, os="linux", authorized_keys=None)\<close>. The option dictionary is
  \<^verbatim>\<open>{"os": os, "arch": bits}\<close>, with \<^verbatim>\<open>"authorized_key": list(authorized_keys)\<close>
  added when keys are passed.
\<close>

definition activate_opts :: "json \<Rightarrow> json \<Rightarrow> json \<Rightarrow> py_error + json" where
  "activate_opts bits os authorized_keys =
     (if authorized_keys \<noteq> JNull then
        (case py_iter authorized_keys of
           Inl e \<Rightarrow> Inl e
         | Inr ks \<Rightarrow> Inr (JObj [(''os'', os), (''arch'', bits), (''authorized_key'', JList ks)]))
      else Inr (JObj [(''os'', os), (''arch'', bits)]))"

definition RescueSystem_activate ::
  "'w transport \<Rightarrow> json \<Rightarrow> json \<Rightarrow> json \<Rightarrow> json \<Rightarrow> RescueSystem \<Rightarrow> 'w net
     \<Rightarrow> (py_error + unit) \<times> RescueSystem \<times> 'w net" where
  "RescueSystem_activate T number bits os authorized_keys rs n =
     (case RescueSystem_active T number rs n of
        (Inl e, rs', n') \<Rightarrow> (Inl e, rs', n')
      | (Inr a, rs', n') \<Rightarrow>
          (if \<not> truthy a then
             (case activate_opts bits os authorized_keys of
                Inl e \<Rightarrow> (Inl e, rs', n')
              | Inr opts \<Rightarrow> RescueSystem_rescue_action T number ''post'' (Some opts) rs' n')
           else (Inr (), rs', n')))"

definition RescueSystem_deactivate ::
  "'w transport \<Rightarrow> json \<Rightarrow> RescueSystem \<Rightarrow> 'w net
     \<Rightarrow> (py_error + unit) \<times> RescueSystem \<times> 'w net" where
  "RescueSystem_deactivate T number rs n =
     (case RescueSystem_active T number rs n of
        (Inl e, rs', n') \<Rightarrow> (Inl e, rs', n')
      | (Inr a, rs', n') \<Rightarrow>
          (if truthy a then RescueSystem_rescue_action T number ''delete'' None rs' n'
           else (Inr (), rs', n')))"

section \<open>AdminAccount\<close>

subsection \<open>The regular expressions\<close>

text \<open>
  The source uses three patterns, all of them a plain sequence of literal characters
  and of character classes, starred greedily (\<^verbatim>\<open>\s*\<close>, \<^verbatim>\<open>[^<]+\<close>) or lazily
  (\<^verbatim>\<open>.*?\<close>, \<^verbatim>\<open>[^<]*?\<close>), with one capture group. A pattern of that shape is a
  list of atoms, matched by backtracking as Python's \<^verbatim>\<open>re\<close> does it: a greedy star
  first tries to take one more character, a lazy star first tries to stop.
  A character of the decoded page is a code point below 256; \<open>Space\<close> is
  \<^verbatim>\<open>\s\<close> on those, and \<open>AnyChar\<close> is the dot under \<^verbatim>\<open>re.DOTALL\<close>.
\<close>

datatype cclass = AnyChar | Space | NotChar char | Exactly char

definition whitespace :: "char list" where
  "whitespace = [CHR 0x09, CHR 0x0A, CHR 0x0B, CHR 0x0C, CHR 0x0D, CHR 0x1C, CHR 0x1D,
                 CHR 0x1E, CHR 0x1F, CHR 0x20, CHR 0x85, CHR 0xA0]"

fun in_class :: "cclass \<Rightarrow> char \<Rightarrow> bool" where
  "in_class AnyChar c = True"
| "in_class Space c = (c \<in> set whitespace)"
| "in_class (NotChar x) c = (c \<noteq> x)"
| "in_class (Exactly x) c = (c = x)"

datatype atom = One cclass | Star cclass | StarLazy cclass | GroupOpen | GroupClose

text \<open>
  \<open>rematch p g s\<close> matches the pattern \<open>p\<close> at the start of \<open>s\<close>. It gives the
  characters taken, each marked with whether it lies inside the capture group, and
  the rest of the input. \<open>g\<close> says whether the group is open.
\<close>

fun rematch :: "atom list \<Rightarrow> bool \<Rightarrow> string \<Rightarrow> ((char \<times> bool) list \<times> string) option" where
  "rematch [] g s = Some ([], s)"
| "rematch (GroupOpen # p) g s = rematch p True s"
| "rematch (GroupClose # p) g s = rematch p False s"
| "rematch (One c # p) g [] = None"
| "rematch (One c # p) g (x # xs) =
     (if in_class c x then
        (case rematch p g xs of Some (m, r) \<Rightarrow> Some ((x, g) # m, r) | None \<Rightarrow> None)
      else None)"
| "rematch (Star c # p) g [] = rematch p g []"
| "rematch (Star c # p) g (x # xs) =
     (if in_class c x then
        (case rematch (Star c # p) g xs of
           Some (m, r) \<Rightarrow> Some ((x, g) # m, r)
         | None \<Rightarrow> rematch p g (x # xs))
      else rematch p g (x # xs))"
| "rematch (StarLazy c # p) g [] = rematch p g []"
| "rematch (StarLazy c # p) g (x # xs) =
     (case rematch p g (x # xs) of
        Some mr \<Rightarrow> Some mr
      | None \<Rightarrow>
          (if in_class c x then
             (case rematch (StarLazy c # p) g xs of
                Some (m, r) \<Rightarrow> Some ((x, g) # m, r)
              | None \<Rightarrow> None)
           else None))"

text \<open>\<^verbatim>\<open>pattern.search(s)\<close>: the match at the leftmost position that has one.\<close>

fun research :: "atom list \<Rightarrow> string \<Rightarrow> (char \<times> bool) list option" where
  "research p [] = (case rematch p False [] of Some (m, r) \<Rightarrow> Some m | None \<Rightarrow> None)"
| "research p (x # xs) =
     (case rematch p False (x # xs) of Some (m, r) \<Rightarrow> Some m | None \<Rightarrow> research p xs)"

text \<open>\<^verbatim>\<open>pattern.finditer(s)\<close>: the matches from left to right, each search starting
  where the previous match ended. (Written for a pattern that never matches the empty
  string, as \<open>li_re\<close> below.)\<close>

fun refinditer :: "atom list \<Rightarrow> string \<Rightarrow> (char \<times> bool) list list" where
  "refinditer p [] = []"
| "refinditer p (x # xs) =
     (case rematch p False (x # xs) of
        Some (m, r) \<Rightarrow> m # refinditer p (drop (max 1 (length m)) (x # xs))
      | None \<Rightarrow> refinditer p xs)"

text \<open>\<^verbatim>\<open>match.group(0)\<close> and \<^verbatim>\<open>match.group(1)\<close>.\<close>

definition group0 :: "(char \<times> bool) list \<Rightarrow> string" where
  "group0 m = map fst m"

definition group1 :: "(char \<times> bool) list \<Rightarrow> string" where
  "group1 m = map fst (filter snd m)"

definition lit :: "string \<Rightarrow> atom list" where
  "lit s = map (\<lambda>c. One (Exactly c)) s"

text \<open>
  \<^item> \<open>login_re\<close>: \<^verbatim>\<open>"label_req">Login.*?"element">([^<]+)\<close> with \<^verbatim>\<open>re.DOTALL\<close>
  \<^item> \<open>ul_re\<close>: \<^verbatim>\<open><ul\s+class="error_list">(.*?)</ul>\<close> with \<^verbatim>\<open>re.DOTALL\<close>
  \<^item> \<open>li_re\<close>: \<^verbatim>\<open><li>\s*([^<]*?)\s*</li>\<close>
\<close>

definition login_re :: "atom list" where
  "login_re = lit ''\"label_req\">Login'' @ [StarLazy AnyChar] @ lit ''\"element\">''
      @ [GroupOpen, One (NotChar CHR ''<''), Star (NotChar CHR ''<''), GroupClose]"

definition ul_re :: "atom list" where
  "ul_re = lit ''<ul'' @ [One Space, Star Space] @ lit ''class=\"error_list\">''
      @ [GroupOpen, StarLazy AnyChar, GroupClose] @ lit ''</ul>''"

definition li_re :: "atom list" where
  "li_re = lit ''<li>'' @ [Star Space, GroupOpen, StarLazy (NotChar CHR ''<''), GroupClose,
      Star Space] @ lit ''</li>''"

text \<open>\<^verbatim>\<open>sep.join(xs)\<close> and the substring test \<^verbatim>\<open>needle in s\<close>.\<close>

fun join :: "string \<Rightarrow> string list \<Rightarrow> string" where
  "join sep [] = []"
| "join sep [x] = x"
| "join sep (x # y # ys) = x @ sep @ join sep (y # ys)"


fun py_in :: "string \<Rightarrow> string \<Rightarrow> bool" where
  "py_in needle [] = (needle = [])"
| "py_in needle (x # xs) = (prefix needle (x # xs) \<or> py_in needle xs)"

subsection \<open>The account\<close>

text \<open>
  \<^verbatim>\<open>_serverid\<close>, \<^verbatim>\<open>exists\<close>, \<^verbatim>\<open>login\<close> and \<^verbatim>\<open>passwd\<close>. The scraping session is
  part of the transport.
\<close>

record AdminAccount =
  aa_serverid :: json
  aa_exists :: bool
  aa_login :: "string option"
  aa_passwd :: "string option"

text \<open>
  Discovery: log in, fetch the account page, assert status 200, and look for the login
  name. Without a match only \<^verbatim>\<open>exists\<close> is touched.
\<close>

definition AdminAccount_update_info ::
  "'w transport \<Rightarrow> AdminAccount \<Rightarrow> 'w net \<Rightarrow> (py_error + unit) \<times> AdminAccount \<times> 'w net" where
  "AdminAccount_update_info T acct n =
     (case scraper_login T n of
        (Inl e, n1) \<Rightarrow> (Inl e, acct, n1)
      | (Inr u, n1) \<Rightarrow>
          (case scraper_request T (AdminPath (aa_serverid acct)) None None n1 of
             (Inl e, n2) \<Rightarrow> (Inl e, acct, n2)
           | (Inr resp, n2) \<Rightarrow>
               (if status resp \<noteq> 200 then (Inl AssertionError, acct, n2)
                else
                  (case read_decode resp of
                     Inl e \<Rightarrow> (Inl e, acct, n2)
                   | Inr page \<Rightarrow>
                       (case research login_re page of
                          None \<Rightarrow> (Inr (), acct\<lparr>aa_exists := False\<rparr>, n2)
                        | Some m \<Rightarrow>
                            (Inr (), acct\<lparr>aa_exists := True, aa_login := Some (group1 m)\<rparr>,
                             n2))))))"

text \<open>\<^verbatim>\<open>AdminAccount(server)\<close> with \<^verbatim>\<open>server.number\<close> as \<open>number\<close>. A constructor
  that raises leaves no object behind.\<close>

definition AdminAccount_init ::
  "'w transport \<Rightarrow> json \<Rightarrow> 'w net \<Rightarrow> (py_error + AdminAccount) \<times> 'w net" where
  "AdminAccount_init T number n =
     (case AdminAccount_update_info T
             \<lparr>aa_serverid = number, aa_exists = False, aa_login = None, aa_passwd = None\<rparr> n of
        (Inl e, acct, n') \<Rightarrow> (Inl e, n')
      | (Inr u, acct, n') \<Rightarrow> (Inr acct, n'))"

text \<open>The exception of a failed submission: the failure message alone, or followed by
  the entries of the error list.\<close>

definition create_failure :: "string \<Rightarrow> string \<Rightarrow> py_error" where
  "create_failure failmsg html =
     (case research ul_re html of
        Some ul_match \<Rightarrow>
          WebRobotError
            (failmsg @ '': '' @ join '', '' (map group1 (refinditer li_re (group0 ul_match))))
      | None \<Rightarrow> WebRobotError failmsg)"

text \<open>The pieces of \<^verbatim>\<open>create\<close> that depend on whether the account exists: the
  failure message, the endpoint, and the submitted form (the update form carries the
  server identifier as \<^verbatim>\<open>id\<close>).\<close>

definition create_failmsg :: "AdminAccount \<Rightarrow> string" where
  "create_failmsg acct =
     (if \<not> aa_exists acct then ''Unable to create admin account''
      else ''Unable to update admin account password'')"

definition create_path :: "AdminAccount \<Rightarrow> path" where
  "create_path acct =
     (if \<not> aa_exists acct then AdminCreatePath (aa_serverid acct) else AdminUpdatePath)"

definition create_data :: "AdminAccount \<Rightarrow> string \<Rightarrow> string \<Rightarrow> (string \<times> json) list" where
  "create_data acct passwd token =
     (let data = [(''password[new_password]'', JStr passwd),
                  (''password[new_password_repeat]'', JStr passwd),
                  (''password[_csrf_token]'', JStr token)]
      in if \<not> aa_exists acct then data else AList.update ''id'' (aa_serverid acct) data)"

text \<open>
  \<^verbatim>\<open>create(passwd=None)\<close>. Two things come from outside the module and are
  parameters: \<open>csrf_token\<close>, what \<^verbatim>\<open>scraping.CSRFParser\<close> finds in the form
  (\<^verbatim>\<open>hetzner.util.scraping\<close> is not part of the sources at hand), and \<open>genpasswd\<close>,
  the string that \<^verbatim>\<open>_genpasswd()\<close> draws at random. The result is the pair
  \<^verbatim>\<open>(self.login, self.passwd)\<close>.
\<close>

definition AdminAccount_create ::
  "'w transport \<Rightarrow> (string \<Rightarrow> string option) \<Rightarrow> string \<Rightarrow> string option \<Rightarrow> AdminAccount \<Rightarrow> 'w net
     \<Rightarrow> (py_error + string option \<times> string option) \<times> AdminAccount \<times> 'w net" where
  "AdminAccount_create T csrf_token genpasswd passwd_arg acct n =
     (let passwd = (case passwd_arg of None \<Rightarrow> genpasswd | Some p \<Rightarrow> p) in
      case scraper_request T (AdminPath (aa_serverid acct)) None (Some ''POST'') n of
        (Inl e, n1) \<Rightarrow> (Inl e, acct, n1)
      | (Inr form_response, n1) \<Rightarrow>
          (case read_decode form_response of
             Inl e \<Rightarrow> (Inl e, acct, n1)
           | Inr form \<Rightarrow>
               (case csrf_token form of
                  None \<Rightarrow> (Inl AssertionError, acct, n1)
                | Some token \<Rightarrow>
                    (case scraper_request T (create_path acct)
                            (Some (create_data acct passwd token)) None n1 of
                       (Inl e, n2) \<Rightarrow> (Inl e, acct, n2)
                     | (Inr resp, n2) \<Rightarrow>
                         (case read_decode resp of
                            Inl e \<Rightarrow> (Inl e, acct, n2)
                          | Inr html \<Rightarrow>
                              (if \<not> py_in ''msgbox_success'' html
                               then (Inl (create_failure (create_failmsg acct) html), acct, n2)
                               else
                                 (case AdminAccount_update_info T acct n2 of
                                    (Inl e, acct', n3) \<Rightarrow> (Inl e, acct', n3)
                                  | (Inr u, acct', n3) \<Rightarrow>
                                      (Inr (aa_login acct', Some passwd),
                                       acct'\<lparr>aa_passwd := Some passwd\<rparr>, n3))))))))"

text \<open>\<^verbatim>\<open>delete()\<close>, with the \<^verbatim>\<open>assert\<close> on the success marker.\<close>

definition AdminAccount_delete ::
  "'w transport \<Rightarrow> AdminAccount \<Rightarrow> 'w net \<Rightarrow> (py_error + unit) \<times> AdminAccount \<times> 'w net" where
  "AdminAccount_delete T acct n =
     (if \<not> aa_exists acct then (Inr (), acct, n)
      else
        (case scraper_request T (AdminDeletePath (aa_serverid acct)) None None n of
           (Inl e, n1) \<Rightarrow> (Inl e, acct, n1)
         | (Inr resp, n1) \<Rightarrow>
             (case read_decode resp of
                Inl e \<Rightarrow> (Inl e, acct, n1)
              | Inr page \<Rightarrow>
                  (if \<not> py_in ''msgbox_success'' page then (Inl AssertionError, acct, n1)
                   else AdminAccount_update_info T acct n1))))"

section \<open>IpAddress\<close>

text \<open>
  An attribute of an object that has not been assigned yet is \<open>None\<close>, and reading it
  raises \<^verbatim>\<open>AttributeError\<close>; an assigned attribute is \<open>Some v\<close>. \<^verbatim>\<open>subnet_ip\<close>
  is assigned by the constructor before anything else. (The lazily built reverse-DNS
  handle \<^verbatim>\<open>_rdns\<close> belongs to another module and is left out.)
\<close>

record IpAddress =
  ia_subnet_ip :: json
  ia_subnet_addr :: "json option"
  ia_ip :: "json option"
  ia_server_ip :: "json option"
  ia_locked :: "json option"
  ia_separate_mac :: "json option"
  ia_traffic_warnings :: "json option"
  ia_traffic_hourly :: "json option"
  ia_traffic_daily :: "json option"
  ia_traffic_monthly :: "json option"

text \<open>The eight assignments at the end of \<^verbatim>\<open>IpAddress.update_info\<close>.\<close>

definition IpAddress_assign :: "json \<Rightarrow> IpAddress \<Rightarrow> (py_error + unit) \<times> IpAddress" where
  "IpAddress_assign data ob =
     assign_all
       [(''ip'', \<lambda>v s. s\<lparr>ia_ip := Some v\<rparr>),
        (''server_ip'', \<lambda>v s. s\<lparr>ia_server_ip := Some v\<rparr>),
        (''locked'', \<lambda>v s. s\<lparr>ia_locked := Some v\<rparr>),
        (''separate_mac'', \<lambda>v s. s\<lparr>ia_separate_mac := Some v\<rparr>),
        (''traffic_warnings'', \<lambda>v s. s\<lparr>ia_traffic_warnings := Some v\<rparr>),
        (''traffic_hourly'', \<lambda>v s. s\<lparr>ia_traffic_hourly := Some v\<rparr>),
        (''traffic_daily'', \<lambda>v s. s\<lparr>ia_traffic_daily := Some v\<rparr>),
        (''traffic_monthly'', \<lambda>v s. s\<lparr>ia_traffic_monthly := Some v\<rparr>)]
       data ob"

text \<open>
  \<^verbatim>\<open>if result is None: result = self.conn.get(path)\<close>, where the path is built from
  an attribute of the object.
\<close>

definition fetch_if_none ::
  "'w transport \<Rightarrow> json \<Rightarrow> string \<Rightarrow> json option \<Rightarrow> (json \<Rightarrow> path) \<Rightarrow> 'w net
     \<Rightarrow> (py_error + json) \<times> 'w net" where
  "fetch_if_none T result name attr mkpath n =
     (if result = JNull then
        (case attr of
           None \<Rightarrow> (Inl (AttributeError name), n)
         | Some a \<Rightarrow> conn_get T (mkpath a) n)
      else (Inr result, n))"

text \<open>
  \<^verbatim>\<open>IpAddress.update_info(result=None)\<close>. In the subnet branch the dictionary
  \<^verbatim>\<open>data\<close> is changed in place before the fields are read from it.
\<close>

definition IpAddress_update_info ::
  "'w transport \<Rightarrow> json \<Rightarrow> IpAddress \<Rightarrow> 'w net \<Rightarrow> (py_error + unit) \<times> IpAddress \<times> 'w net" where
  "IpAddress_update_info T result ob n =
     (if ia_subnet_ip ob \<noteq> JNull then
        (case fetch_if_none T result ''_subnet_addr'' (ia_subnet_addr ob) SubnetPath n of
           (Inl e, n') \<Rightarrow> (Inl e, ob, n')
         | (Inr result', n') \<Rightarrow>
             (case getitem result' ''subnet'' of
                Inl e \<Rightarrow> (Inl e, ob, n')
              | Inr data \<Rightarrow>
                  (case getitem data ''ip'' of
                     Inl e \<Rightarrow> (Inl e, ob, n')
                   | Inr a \<Rightarrow>
                       (let ob1 = ob\<lparr>ia_subnet_addr := Some a\<rparr> in
                        case setitem data ''ip'' (ia_subnet_ip ob) of
                          Inl e \<Rightarrow> (Inl e, ob1, n')
                        | Inr data1 \<Rightarrow>
                            (case setitem data1 ''separate_mac'' JNull of
                               Inl e \<Rightarrow> (Inl e, ob1, n')
                             | Inr data2 \<Rightarrow>
                                 (case IpAddress_assign data2 ob1 of
                                    (r, ob2) \<Rightarrow> (r, ob2, n')))))))
      else
        (case fetch_if_none T result ''ip'' (ia_ip ob) IpPath n of
           (Inl e, n') \<Rightarrow> (Inl e, ob, n')
         | (Inr result', n') \<Rightarrow>
             (case getitem result' ''ip'' of
                Inl e \<Rightarrow> (Inl e, ob, n')
              | Inr data \<Rightarrow>
                  (case IpAddress_assign data ob of
                     (r, ob1) \<Rightarrow> (r, ob1, n')))))"

text \<open>\<^verbatim>\<open>IpAddress(conn, result, subnet_ip=None)\<close>.\<close>

definition IpAddress_blank :: "json \<Rightarrow> IpAddress" where
  "IpAddress_blank subnet_ip =
     \<lparr>ia_subnet_ip = subnet_ip, ia_subnet_addr = None, ia_ip = None, ia_server_ip = None,
      ia_locked = None, ia_separate_mac = None, ia_traffic_warnings = None,
      ia_traffic_hourly = None, ia_traffic_daily = None, ia_traffic_monthly = None\<rparr>"

definition IpAddress_init ::
  "'w transport \<Rightarrow> json \<Rightarrow> json \<Rightarrow> 'w net \<Rightarrow> (py_error + IpAddress) \<times> 'w net" where
  "IpAddress_init T result subnet_ip n =
     (case IpAddress_update_info T result (IpAddress_blank subnet_ip) n of
        (Inl e, ob, n') \<Rightarrow> (Inl e, n')
      | (Inr u, ob, n') \<Rightarrow> (Inr ob, n'))"

section \<open>IpManager\<close>

record IpManager =
  im_main_ip :: json

text \<open>\<^verbatim>\<open>[C(self.conn, x) for x in xs]\<close>: the objects are built in order, and the first
  constructor that raises ends the comprehension.\<close>

fun construct_all ::
  "(json \<Rightarrow> 'w net \<Rightarrow> (py_error + 'o) \<times> 'w net) \<Rightarrow> json list \<Rightarrow> 'w net
     \<Rightarrow> (py_error + 'o list) \<times> 'w net" where
  "construct_all mk [] n = (Inr [], n)"
| "construct_all mk (x # xs) n =
     (case mk x n of
        (Inl e, n') \<Rightarrow> (Inl e, n')
      | (Inr ob, n') \<Rightarrow>
          (case construct_all mk xs n' of
             (Inl e, n'') \<Rightarrow> (Inl e, n'')
           | (Inr obs, n'') \<Rightarrow> (Inr (ob # obs), n'')))"

definition wrap_each ::
  "(json \<Rightarrow> 'w net \<Rightarrow> (py_error + 'o) \<times> 'w net) \<Rightarrow> json \<Rightarrow> 'w net
     \<Rightarrow> (py_error + 'o list) \<times> 'w net" where
  "wrap_each mk result n =
     (case py_iter result of
        Inl e \<Rightarrow> (Inl e, n)
      | Inr xs \<Rightarrow> construct_all mk xs n)"

text \<open>
  \<^verbatim>\<open>except RobotError as err\<close> catches a \<^verbatim>\<open>RobotError\<close> and an exception of its
  subclass \<^verbatim>\<open>WebRobotError\<close>, and nothing else. For a caught exception
  \<open>robot_status\<close> is \<open>Some\<close> of its \<^verbatim>\<open>err.status\<close>; for any other exception it
  is \<open>None\<close>.
\<close>

fun robot_status :: "py_error \<Rightarrow> int option option" where
  "robot_status (RobotError st msg) = Some st"
| "robot_status (WebRobotError msg) = Some None"
| "robot_status _ = None"

definition IpManager_get ::
  "'w transport \<Rightarrow> json \<Rightarrow> 'w net \<Rightarrow> (py_error + IpAddress) \<times> 'w net" where
  "IpManager_get T ip n =
     (case conn_get T (IpPath ip) n of
        (Inl e, n') \<Rightarrow> (Inl e, n')
      | (Inr result, n') \<Rightarrow> IpAddress_init T result JNull n')"

text \<open>\<^verbatim>\<open>IpManager.__iter__\<close>: every \<^verbatim>\<open>RobotError\<close> of the collection request is
  caught and replaced by the empty list.\<close>

definition IpManager_iter ::
  "'w transport \<Rightarrow> IpManager \<Rightarrow> 'w net \<Rightarrow> (py_error + IpAddress list) \<times> 'w net" where
  "IpManager_iter T mgr n =
     (case conn_get T (IpCollectionPath (im_main_ip mgr)) n of
        (Inr result, n') \<Rightarrow> wrap_each (\<lambda>ip. IpAddress_init T ip JNull) result n'
      | (Inl e, n') \<Rightarrow>
          (case robot_status e of
             Some st \<Rightarrow> wrap_each (\<lambda>ip. IpAddress_init T ip JNull) (JList []) n'
           | None \<Rightarrow> (Inl e, n')))"

section \<open>Subnet\<close>

text \<open>
  The module \<^verbatim>\<open>hetzner.util.addr\<close> is not part of the sources at hand; its functions
  are a parameter. \<^verbatim>\<open>parse_ipaddr(a)\<close> without a family gives the pair of the family
  found and the number (\<open>parse_ipaddr_detect\<close>); \<^verbatim>\<open>parse_ipaddr(a, is_ipv6)\<close> gives the
  number (\<open>parse_ipaddr\<close>); the two range functions give the pair of the lowest and
  the highest number of the network.
\<close>

record addr_module =
  parse_ipaddr_detect :: "json \<Rightarrow> py_error + bool \<times> int"
  parse_ipaddr :: "json \<Rightarrow> bool \<Rightarrow> py_error + int"
  get_ipv4_range :: "int \<Rightarrow> json \<Rightarrow> py_error + int \<times> int"
  get_ipv6_range :: "int \<Rightarrow> json \<Rightarrow> py_error + int \<times> int"

record Subnet =
  sn_net_ip :: "json option"
  sn_mask :: "json option"
  sn_gateway :: "json option"
  sn_server_ip :: "json option"
  sn_failover :: "json option"
  sn_locked :: "json option"
  sn_traffic_warnings :: "json option"
  sn_traffic_hourly :: "json option"
  sn_traffic_daily :: "json option"
  sn_traffic_monthly :: "json option"
  sn_is_ipv6 :: "bool option"
  sn_numeric_net_ip :: "int option"
  sn_numeric_gateway :: "int option"
  sn_numeric_range :: "(int \<times> int) option"

text \<open>Reading an attribute of an object.\<close>

definition getattr :: "string \<Rightarrow> 'a option \<Rightarrow> py_error + 'a" where
  "getattr name attr = (case attr of None \<Rightarrow> Inl (AttributeError name) | Some v \<Rightarrow> Inr v)"

text \<open>The ten assignments of \<^verbatim>\<open>Subnet.update_info\<close>, then the four derived numeric
  fields.\<close>

definition Subnet_assign :: "json \<Rightarrow> Subnet \<Rightarrow> (py_error + unit) \<times> Subnet" where
  "Subnet_assign data ob =
     assign_all
       [(''ip'', \<lambda>v s. s\<lparr>sn_net_ip := Some v\<rparr>),
        (''mask'', \<lambda>v s. s\<lparr>sn_mask := Some v\<rparr>),
        (''gateway'', \<lambda>v s. s\<lparr>sn_gateway := Some v\<rparr>),
        (''server_ip'', \<lambda>v s. s\<lparr>sn_server_ip := Some v\<rparr>),
        (''failover'', \<lambda>v s. s\<lparr>sn_failover := Some v\<rparr>),
        (''locked'', \<lambda>v s. s\<lparr>sn_locked := Some v\<rparr>),
        (''traffic_warnings'', \<lambda>v s. s\<lparr>sn_traffic_warnings := Some v\<rparr>),
        (''traffic_hourly'', \<lambda>v s. s\<lparr>sn_traffic_hourly := Some v\<rparr>),
        (''traffic_daily'', \<lambda>v s. s\<lparr>sn_traffic_daily := Some v\<rparr>),
        (''traffic_monthly'', \<lambda>v s. s\<lparr>sn_traffic_monthly := Some v\<rparr>)]
       data ob"

definition Subnet_numeric :: "addr_module \<Rightarrow> Subnet \<Rightarrow> (py_error + unit) \<times> Subnet" where
  "Subnet_numeric M ob =
     (case getattr ''net_ip'' (sn_net_ip ob) of
        Inl e \<Rightarrow> (Inl e, ob)
      | Inr net_ip \<Rightarrow>
          (case parse_ipaddr_detect M net_ip of
             Inl e \<Rightarrow> (Inl e, ob)
           | Inr (v6, num) \<Rightarrow>
               (let ob1 = ob\<lparr>sn_is_ipv6 := Some v6, sn_numeric_net_ip := Some num\<rparr> in
                case getattr ''gateway'' (sn_gateway ob1) of
                  Inl e \<Rightarrow> (Inl e, ob1)
                | Inr gateway \<Rightarrow>
                    (case parse_ipaddr M gateway v6 of
                       Inl e \<Rightarrow> (Inl e, ob1)
                     | Inr g \<Rightarrow>
                         (let ob2 = ob1\<lparr>sn_numeric_gateway := Some g\<rparr>;
                              getrange = (if v6 then get_ipv6_range M else get_ipv4_range M)
                          in case getattr ''mask'' (sn_mask ob2) of
                               Inl e \<Rightarrow> (Inl e, ob2)
                             | Inr prefix_len \<Rightarrow>
                                 (case getrange num prefix_len of
                                    Inl e \<Rightarrow> (Inl e, ob2)
                                  | Inr rng \<Rightarrow>
                                      (Inr (), ob2\<lparr>sn_numeric_range := Some rng\<rparr>)))))))"

definition Subnet_update_info ::
  "addr_module \<Rightarrow> 'w transport \<Rightarrow> json \<Rightarrow> Subnet \<Rightarrow> 'w net
     \<Rightarrow> (py_error + unit) \<times> Subnet \<times> 'w net" where
  "Subnet_update_info M T result ob n =
     (case fetch_if_none T result ''net_ip'' (sn_net_ip ob) SubnetPath n of
        (Inl e, n') \<Rightarrow> (Inl e, ob, n')
      | (Inr result', n') \<Rightarrow>
          (case getitem result' ''subnet'' of
             Inl e \<Rightarrow> (Inl e, ob, n')
           | Inr data \<Rightarrow>
               (case Subnet_assign data ob of
                  (Inl e, ob1) \<Rightarrow> (Inl e, ob1, n')
                | (Inr u, ob1) \<Rightarrow>
                    (case Subnet_numeric M ob1 of (r, ob2) \<Rightarrow> (r, ob2, n')))))"

definition Subnet_blank :: Subnet where
  "Subnet_blank =
     \<lparr>sn_net_ip = None, sn_mask = None, sn_gateway = None, sn_server_ip = None,
      sn_failover = None, sn_locked = None, sn_traffic_warnings = None,
      sn_traffic_hourly = None, sn_traffic_daily = None, sn_traffic_monthly = None,
      sn_is_ipv6 = None, sn_numeric_net_ip = None, sn_numeric_gateway = None,
      sn_numeric_range = None\<rparr>"

definition Subnet_init ::
  "addr_module \<Rightarrow> 'w transport \<Rightarrow> json \<Rightarrow> 'w net \<Rightarrow> (py_error + Subnet) \<times> 'w net" where
  "Subnet_init M T result n =
     (case Subnet_update_info M T result Subnet_blank n of
        (Inl e, ob, n') \<Rightarrow> (Inl e, n')
      | (Inr u, ob, n') \<Rightarrow> (Inr ob, n'))"

text \<open>
  What the name \<^verbatim>\<open>addr\<close> stands for where it is used. The module imports
  \<^verbatim>\<open>hetzner.util.addr\<close> under that name, and \<^verbatim>\<open>update_info\<close> reaches the module
  through it. \<^verbatim>\<open>__contains__(self, addr)\<close> and \<^verbatim>\<open>get_ip(self, addr)\<close> have a parameter
  of the same name, so inside them \<^verbatim>\<open>addr\<close> is the argument, and
  \<^verbatim>\<open>addr.parse_ipaddr\<close> is an attribute lookup on the argument. An address given as a
  decoded value (a string, a number, \<^verbatim>\<open>None\<close>) has no such attribute.
\<close>

datatype addr_binding = Module | Argument json

fun lookup_parse_ipaddr ::
  "addr_module \<Rightarrow> addr_binding \<Rightarrow> py_error + (json \<Rightarrow> bool \<Rightarrow> py_error + int)" where
  "lookup_parse_ipaddr M Module = Inr (parse_ipaddr M)"
| "lookup_parse_ipaddr M (Argument v) = Inl (AttributeError ''parse_ipaddr'')"

text \<open>
  The body of \<^verbatim>\<open>Subnet.__contains__\<close>, with what the name \<^verbatim>\<open>addr\<close> stands for
  as the first argument, and \<open>a\<close> the address that is tested.
\<close>

definition Subnet_contains_body ::
  "addr_binding \<Rightarrow> addr_module \<Rightarrow> Subnet \<Rightarrow> json \<Rightarrow> py_error + bool" where
  "Subnet_contains_body addr M self a =
     (case lookup_parse_ipaddr M addr of
        Inl e \<Rightarrow> Inl e
      | Inr parse \<Rightarrow>
          (case getattr ''is_ipv6'' (sn_is_ipv6 self) of
             Inl e \<Rightarrow> Inl e
           | Inr v6 \<Rightarrow>
               (case parse a v6 of
                  Inl e \<Rightarrow> Inl e
                | Inr numeric_addr \<Rightarrow>
                    (case getattr ''numeric_range'' (sn_numeric_range self) of
                       Inl e \<Rightarrow> Inl e
                     | Inr (lo, hi) \<Rightarrow> Inr (lo \<le> numeric_addr \<and> numeric_addr \<le> hi)))))"

text \<open>\<^verbatim>\<open>Subnet.__contains__(self, addr)\<close>, the \<^verbatim>\<open>in\<close> operator: in the method the
  name is the parameter.\<close>

definition Subnet_contains :: "addr_module \<Rightarrow> Subnet \<Rightarrow> json \<Rightarrow> py_error + bool" where
  "Subnet_contains M self a = Subnet_contains_body (Argument a) M self a"

text \<open>The membership test as the specification describes it: the same body with the
  name \<^verbatim>\<open>addr\<close> standing for the module, as it does in \<^verbatim>\<open>update_info\<close>.\<close>

definition Subnet_contains_as_specified ::
  "addr_module \<Rightarrow> Subnet \<Rightarrow> json \<Rightarrow> py_error + bool" where
  "Subnet_contains_as_specified M self a = Subnet_contains_body Module M self a"

text \<open>\<^verbatim>\<open>Subnet.get_ip(self, addr)\<close>: the member address as an \<open>IpAddress\<close>, or
  \<^verbatim>\<open>None\<close> when the subnet does not contain it.\<close>

definition Subnet_get_ip ::
  "addr_module \<Rightarrow> 'w transport \<Rightarrow> Subnet \<Rightarrow> json \<Rightarrow> 'w net
     \<Rightarrow> (py_error + IpAddress option) \<times> 'w net" where
  "Subnet_get_ip M T self a n =
     (case Subnet_contains M self a of
        Inl e \<Rightarrow> (Inl e, n)
      | Inr inside \<Rightarrow>
          (if inside then
             (case getattr ''net_ip'' (sn_net_ip self) of
                Inl e \<Rightarrow> (Inl e, n)
              | Inr net_ip \<Rightarrow>
                  (case conn_get T (SubnetPath net_ip) n of
                     (Inl e, n') \<Rightarrow> (Inl e, n')
                   | (Inr result, n') \<Rightarrow>
                       (case IpAddress_init T result a n' of
                          (Inl e, n'') \<Rightarrow> (Inl e, n'')
                        | (Inr ip, n'') \<Rightarrow> (Inr (Some ip), n''))))
           else (Inr None, n)))"

section \<open>SubnetManager\<close>

record SubnetManager =
  sm_main_ip :: json

definition SubnetManager_get ::
  "addr_module \<Rightarrow> 'w transport \<Rightarrow> json \<Rightarrow> 'w net \<Rightarrow> (py_error + Subnet) \<times> 'w net" where
  "SubnetManager_get M T net_ip n =
     (case conn_get T (SubnetPath net_ip) n of
        (Inl e, n') \<Rightarrow> (Inl e, n')
      | (Inr result, n') \<Rightarrow> Subnet_init M T result n')"

text \<open>
  \<^verbatim>\<open>SubnetManager.__iter__\<close>. The handler assigns \<^verbatim>\<open>result\<close> only for status
  404 and does not raise again, so after any other caught status the local variable
  \<^verbatim>\<open>result\<close> has no value (\<open>None\<close> below) when the comprehension reads it.
\<close>

definition SubnetManager_iter ::
  "addr_module \<Rightarrow> 'w transport \<Rightarrow> SubnetManager \<Rightarrow> 'w net
     \<Rightarrow> (py_error + Subnet list) \<times> 'w net" where
  "SubnetManager_iter M T mgr n =
     (case conn_get T (SubnetCollectionPath (sm_main_ip mgr)) n of
        (answer, n') \<Rightarrow>
          (case (case answer of
                   Inr result \<Rightarrow> Inr (Some result)
                 | Inl e \<Rightarrow>
                     (case robot_status e of
                        Some st \<Rightarrow> Inr (if st = Some 404 then Some (JList []) else None)
                      | None \<Rightarrow> Inl e)) of
             Inl e \<Rightarrow> (Inl e, n')
           | Inr None \<Rightarrow> (Inl (UnboundLocalError ''result''), n')
           | Inr (Some result) \<Rightarrow> wrap_each (Subnet_init M T) result n'))"

section \<open>Server\<close>

text \<open>
  The attributes that \<^verbatim>\<open>update_info\<close> assigns, then the components that the
  constructor attaches: \<^verbatim>\<open>rescue\<close>, \<^verbatim>\<open>ips\<close> and \<^verbatim>\<open>_admin_account\<close> (the
  \<^verbatim>\<open>Reset\<close> and \<^verbatim>\<open>ReverseDNSManager\<close> handles and the logger belong to other modules
  and are left out). \<^verbatim>\<open>_admin_account\<close> is assigned \<^verbatim>\<open>None\<close> by the constructor;
  its \<open>None\<close> is that value. The type \<open>'d\<close> is the date that
  \<^verbatim>\<open>datetime.strptime\<close> builds.
\<close>

record 'd Server =
  srv_ip :: "json option"
  srv_number :: "json option"
  srv_name :: "json option"
  srv_product :: "json option"
  srv_datacenter :: "json option"
  srv_traffic :: "json option"
  srv_status :: "json option"
  srv_subnets :: "json option"
  srv_cancelled :: "json option"
  srv_paid_until :: "'d option"
  srv_linked_storagebox :: "json option"
  srv_rescue :: "RescueSystem option"
  srv_ips :: "IpManager option"
  srv_admin_account :: "AdminAccount option"

text \<open>The choice of \<^verbatim>\<open>self.ip\<close>, lines 459 to 466 of the source, branch by branch.\<close>

definition Server_select_ip :: "json \<Rightarrow> py_error + json" where
  "Server_select_ip data =
     (case getitem data ''server_ip'' of
        Inl e \<Rightarrow> Inl e
      | Inr server_ip \<Rightarrow>
          (if truthy server_ip then Inr server_ip
           else if server_ip \<noteq> JNull then Inr server_ip
           else
             (case getitem data ''server_ipv6_net'' of
                Inl e \<Rightarrow> Inl e
              | Inr net \<Rightarrow>
                  (if truthy net \<and> net \<noteq> JNull then py_add_str net ''2''
                   else Inr JNull))))"

definition Server_assign :: "json \<Rightarrow> 'd Server \<Rightarrow> (py_error + unit) \<times> 'd Server" where
  "Server_assign data ob =
     assign_all
       [(''server_number'', \<lambda>v s. s\<lparr>srv_number := Some v\<rparr>),
        (''server_name'', \<lambda>v s. s\<lparr>srv_name := Some v\<rparr>),
        (''product'', \<lambda>v s. s\<lparr>srv_product := Some v\<rparr>),
        (''dc'', \<lambda>v s. s\<lparr>srv_datacenter := Some v\<rparr>),
        (''traffic'', \<lambda>v s. s\<lparr>srv_traffic := Some v\<rparr>),
        (''status'', \<lambda>v s. s\<lparr>srv_status := Some v\<rparr>),
        (''subnet'', \<lambda>v s. s\<lparr>srv_subnets := Some v\<rparr>),
        (''cancelled'', \<lambda>v s. s\<lparr>srv_cancelled := Some v\<rparr>)]
       data ob"

text \<open>
  \<^verbatim>\<open>Server.update_info(result=None)\<close>. \<open>strptime\<close> is
  \<^verbatim>\<open>datetime.strptime(_, "%Y-%m-%d")\<close>, a parameter: it gives a date or raises.
\<close>

definition Server_update_info ::
  "(json \<Rightarrow> py_error + 'd) \<Rightarrow> 'w transport \<Rightarrow> json \<Rightarrow> 'd Server \<Rightarrow> 'w net
     \<Rightarrow> (py_error + unit) \<times> 'd Server \<times> 'w net" where
  "Server_update_info strptime T result ob n =
     (case fetch_if_none T result ''ip'' (srv_ip ob) ServerPath n of
        (Inl e, n') \<Rightarrow> (Inl e, ob, n')
      | (Inr result', n') \<Rightarrow>
          (case getitem result' ''server'' of
             Inl e \<Rightarrow> (Inl e, ob, n')
           | Inr data \<Rightarrow>
               (case Server_select_ip data of
                  Inl e \<Rightarrow> (Inl e, ob, n')
                | Inr ip \<Rightarrow>
                    (case Server_assign data (ob\<lparr>srv_ip := Some ip\<rparr>) of
                       (Inl e, ob1) \<Rightarrow> (Inl e, ob1, n')
                     | (Inr u, ob1) \<Rightarrow>
                         (case getitem data ''paid_until'' of
                            Inl e \<Rightarrow> (Inl e, ob1, n')
                          | Inr paid \<Rightarrow>
                              (case strptime paid of
                                 Inl e \<Rightarrow> (Inl e, ob1, n')
                               | Inr date \<Rightarrow>
                                   (let ob2 = ob1\<lparr>srv_paid_until := Some date\<rparr> in
                                    case getitem data ''linked_storagebox'' of
                                      Inl e \<Rightarrow> (Inl e, ob2, n')
                                    | Inr box \<Rightarrow>
                                        (Inr (), ob2\<lparr>srv_linked_storagebox := Some box\<rparr>,
                                         n'))))))))"

definition Server_blank :: "'d Server" where
  "Server_blank =
     \<lparr>srv_ip = None, srv_number = None, srv_name = None, srv_product = None,
      srv_datacenter = None, srv_traffic = None, srv_status = None, srv_subnets = None,
      srv_cancelled = None, srv_paid_until = None, srv_linked_storagebox = None,
      srv_rescue = None, srv_ips = None, srv_admin_account = None\<rparr>"

text \<open>
  \<^verbatim>\<open>Server(conn, result)\<close>. After \<^verbatim>\<open>update_info\<close> the constructor attaches a
  \<open>RescueSystem\<close> and an \<open>IpManager\<close> for the resolved address; the line that would
  attach a \<open>SubnetManager\<close> is commented out in the source, and \<^verbatim>\<open>subnets\<close> keeps what
  \<^verbatim>\<open>update_info\<close> stored there.
\<close>

definition Server_init ::
  "(json \<Rightarrow> py_error + 'd) \<Rightarrow> 'w transport \<Rightarrow> json \<Rightarrow> 'w net
     \<Rightarrow> (py_error + 'd Server) \<times> 'w net" where
  "Server_init strptime T result n =
     (case Server_update_info strptime T result Server_blank n of
        (Inl e, ob, n') \<Rightarrow> (Inl e, n')
      | (Inr u, ob, n') \<Rightarrow>
          (case getattr ''ip'' (srv_ip ob) of
             Inl e \<Rightarrow> (Inl e, n')
           | Inr ip \<Rightarrow>
               (Inr (ob\<lparr>srv_rescue := Some RescueSystem_init,
                        srv_ips := Some \<lparr>im_main_ip = ip\<rparr>,
                        srv_admin_account := None\<rparr>), n')))"

text \<open>The \<^verbatim>\<open>admin\<close> property.\<close>

definition Server_admin ::
  "'w transport \<Rightarrow> 'd Server \<Rightarrow> 'w net \<Rightarrow> (py_error + AdminAccount) \<times> 'd Server \<times> 'w net" where
  "Server_admin T ob n =
     (case srv_admin_account ob of
        Some acct \<Rightarrow> (Inr acct, ob, n)
      | None \<Rightarrow>
          (case getattr ''number'' (srv_number ob) of
             Inl e \<Rightarrow> (Inl e, ob, n)
           | Inr number \<Rightarrow>
               (case AdminAccount_init T number n of
                  (Inl e, n') \<Rightarrow> (Inl e, ob, n')
                | (Inr acct, n') \<Rightarrow> (Inr acct, ob\<lparr>srv_admin_account := Some acct\<rparr>, n'))))"

text \<open>
  The two ways of refreshing an object, side by side: \<^verbatim>\<open>update_info(doc)\<close> started
  on the network \<open>m\<close> and \<^verbatim>\<open>update_info()\<close> started on the network \<open>n\<close>. They
  agree when the first leaves the network as it was, both end with the same outcome
  and the same object, and the second has sent the one request for \<open>p\<close> and nothing
  else.
\<close>

definition round_trip ::
  "(json \<Rightarrow> 'o \<Rightarrow> 'w net \<Rightarrow> (py_error + unit) \<times> 'o \<times> 'w net) \<Rightarrow> json \<Rightarrow> 'o \<Rightarrow> 'w net \<Rightarrow> 'w net
     \<Rightarrow> path \<Rightarrow> 'w \<Rightarrow> bool" where
  "round_trip update_info doc ob m n p w' \<longleftrightarrow>
     snd (snd (update_info doc ob m)) = m
     \<and> fst (update_info doc ob m) = fst (update_info JNull ob n)
     \<and> fst (snd (update_info doc ob m)) = fst (snd (update_info JNull ob n))
     \<and> snd (snd (update_info JNull ob n)) = \<lparr>world = w', sent = sent n @ [Get p]\<rparr>"

text \<open>
  The choice of the address as the specification words it: two branches, the
  \<^verbatim>\<open>server_ip\<close> field when present, otherwise the address derived from
  \<^verbatim>\<open>server_ipv6_net\<close> when that is present, otherwise \<^verbatim>\<open>None\<close>. What "present"
  means is the parameter \<open>present\<close>; the two readings are \<open>truthy\<close> (the first
  test of the source, with the branch that the specification calls dead removed) and
  \<open>not_none\<close>.
\<close>

definition not_none :: "json \<Rightarrow> bool" where
  "not_none v \<longleftrightarrow> v \<noteq> JNull"

definition select_ip_two_branch :: "(json \<Rightarrow> bool) \<Rightarrow> json \<Rightarrow> py_error + json" where
  "select_ip_two_branch present data =
     (case getitem data ''server_ip'' of
        Inl e \<Rightarrow> Inl e
      | Inr server_ip \<Rightarrow>
          (if present server_ip then Inr server_ip
           else
             (case getitem data ''server_ipv6_net'' of
                Inl e \<Rightarrow> Inl e
              | Inr net \<Rightarrow> (if present net then py_add_str net ''2'' else Inr JNull))))"

text \<open>Two calling sequences used below: the same property read twice, and
  \<^verbatim>\<open>activate\<close> called twice in a row on the same object.\<close>

definition two_reads where
  "two_reads getter T number rs n =
     (case getter T number rs n of (r1, rs1, n1) \<Rightarrow> getter T number rs1 n1)"

definition activate_twice where
  "activate_twice T number bits os keys rs n =
     (case RescueSystem_activate T number bits os keys rs n of
        (r1, rs1, n1) \<Rightarrow> RescueSystem_activate T number bits os keys rs1 n1)"

text \<open>A small remote side for the examples: its state is whether the rescue system
  is active; a status fetch reports it, \<^verbatim>\<open>post\<close> turns it on and any other
  method turns it off. The password is known only while the system is active.\<close>

definition rescue_doc :: "bool \<Rightarrow> json" where
  "rescue_doc act =
     JObj [(''rescue'', JObj [(''active'', JBool act),
                              (''password'', if act then JStr ''s3cret'' else JNull),
                              (''authorized_key'', JList [])])]"

definition rescue_transport :: "bool transport" where
  "rescue_transport =
     \<lparr>conn_answer = (\<lambda>w rq. case rq of
          Get p \<Rightarrow> (Inr (rescue_doc w), w)
        | Request m p opts \<Rightarrow> (Inr (rescue_doc (m = ''post'')), m = ''post'')
        | _ \<Rightarrow> (Inl (RobotError (Some 404) ''not found''), w)),
      scraper_login_answer = (\<lambda>w. (Inr (), w)),
      scraper_answer = (\<lambda>w rq. (Inl (Other ''unused''), w))\<rparr>"

text \<open>
  A scraping session for the examples: it hands out a prepared list of responses, one
  per request, and fails when the list is used up. The pages are cut down to the
  parts that the patterns look at.
\<close>

definition scripted_scraper :: "response list transport" where
  "scripted_scraper =
     \<lparr>conn_answer = (\<lambda>w rq. (Inl (Other ''unused''), w)),
      scraper_login_answer = (\<lambda>w. (Inr (), w)),
      scraper_answer = (\<lambda>w rq. case w of
          [] \<Rightarrow> (Inl (Other ''no response left''), [])
        | r # rs \<Rightarrow> (Inr r, rs))\<rparr>"

definition page :: "string \<Rightarrow> response" where
  "page s = \<lparr>status = 200, body = Some s\<rparr>"

definition demo_csrf_token :: "string \<Rightarrow> string option" where
  "demo_csrf_token form = (if py_in ''value=\"tok123\"'' form then Some ''tok123'' else None)"

definition form_page :: string where
  "form_page = ''<input name=\"password[_csrf_token]\" value=\"tok123\">''"

definition present_page :: string where
  "present_page = ''<td class=\"label_req\">Login:</td><td class=\"element\">K4711</td>''"

definition missing_page :: string where
  "missing_page = ''<p>No admin login has been created yet.</p>''"

definition success_page :: string where
  "success_page = ''<div class=\"msgbox_success\">Saved.</div>''"

definition error_page :: string where
  "error_page = ''<ul class=\"error_list\"><li>too short</li> <li> needs a digit </li></ul>''"

text \<open>
  Transports for the examples of the structured interface: one that raises the same
  exception at every request, one that answers every request with the same document;
  and an address module that rejects everything, for the examples that never reach it.
\<close>

definition raising_conn :: "py_error \<Rightarrow> unit transport" where
  "raising_conn e =
     \<lparr>conn_answer = (\<lambda>w rq. (Inl e, w)),
      scraper_login_answer = (\<lambda>w. (Inl (Other ''unused''), w)),
      scraper_answer = (\<lambda>w rq. (Inl (Other ''unused''), w))\<rparr>"

definition answering_conn :: "json \<Rightarrow> unit transport" where
  "answering_conn doc =
     \<lparr>conn_answer = (\<lambda>w rq. (Inr doc, w)),
      scraper_login_answer = (\<lambda>w. (Inl (Other ''unused''), w)),
      scraper_answer = (\<lambda>w rq. (Inl (Other ''unused''), w))\<rparr>"

definition no_addr :: addr_module where
  "no_addr =
     \<lparr>parse_ipaddr_detect = (\<lambda>a. Inl AddressFormatError),
      parse_ipaddr = (\<lambda>a v6. Inl AddressFormatError),
      get_ipv4_range = (\<lambda>a m. Inl AddressFormatError),
      get_ipv6_range = (\<lambda>a m. Inl AddressFormatError)\<rparr>"

text \<open>
  Modelled from the spec: \<^verbatim>\<open>hetzner.util.addr\<close> is missing from the sources. Section
  4.1 of the specification describes it: an address text is parsed to an integer, an
  IPv4 mask is counted out of 32 bits, and the range of a network is found by clearing
  and by setting the host bits of the network value. Only the IPv4 half is written out
  here, for the examples; text that is not a dotted quad is answered with
  \<open>AddressFormatError\<close>. The theorems below hold for every address module.
\<close>

definition digit :: "char \<Rightarrow> nat option" where
  "digit c = map_of [(CHR ''0'', 0), (CHR ''1'', 1), (CHR ''2'', 2), (CHR ''3'', 3),
      (CHR ''4'', 4), (CHR ''5'', 5), (CHR ''6'', 6), (CHR ''7'', 7), (CHR ''8'', 8),
      (CHR ''9'', 9)] c"

fun decimal_from :: "nat \<Rightarrow> string \<Rightarrow> nat option" where
  "decimal_from acc [] = Some acc"
| "decimal_from acc (c # cs) =
     (case digit c of None \<Rightarrow> None | Some d \<Rightarrow> decimal_from (10 * acc + d) cs)"

definition decimal :: "string \<Rightarrow> nat option" where
  "decimal s = (if s = [] then None else decimal_from 0 s)"

fun split_on :: "char \<Rightarrow> string \<Rightarrow> string list" where
  "split_on c [] = [[]]"
| "split_on c (x # xs) =
     (if x = c then [] # split_on c xs
      else (case split_on c xs of [] \<Rightarrow> [[x]] | p # ps \<Rightarrow> (x # p) # ps))"

definition parse_ipv4 :: "string \<Rightarrow> py_error + int" where
  "parse_ipv4 s =
     (case map decimal (split_on CHR ''.'' s) of
        [Some a, Some b, Some c, Some d] \<Rightarrow>
          (if a \<le> 255 \<and> b \<le> 255 \<and> c \<le> 255 \<and> d \<le> 255
           then Inr (int (((a * 256 + b) * 256 + c) * 256 + d))
           else Inl AddressFormatError)
      | _ \<Rightarrow> Inl AddressFormatError)"

fun ipv4_range :: "int \<Rightarrow> json \<Rightarrow> py_error + int \<times> int" where
  "ipv4_range net (JInt m) =
     (if 0 \<le> m \<and> m \<le> 32 then
        (let host = 2 ^ nat (32 - m); low = (net div host) * host
         in Inr (low, low + host - 1))
      else Inl ValueError)"
| "ipv4_range net _ = Inl TypeError"

fun parse_ipv4_value :: "json \<Rightarrow> py_error + int" where
  "parse_ipv4_value (JStr s) = parse_ipv4 s"
| "parse_ipv4_value _ = Inl TypeError"

definition ipv4_addr :: addr_module where
  "ipv4_addr =
     \<lparr>parse_ipaddr_detect =
        (\<lambda>a. case parse_ipv4_value a of Inl e \<Rightarrow> Inl e | Inr v \<Rightarrow> Inr (False, v)),
      parse_ipaddr = (\<lambda>a v6. if v6 then Inl AddressFormatError else parse_ipv4_value a),
      get_ipv4_range = ipv4_range,
      get_ipv6_range = (\<lambda>a m. Inl AddressFormatError)\<rparr>"

text \<open>A stand-in for \<^verbatim>\<open>datetime.strptime(_, "%Y-%m-%d")\<close> in the examples: year,
  month and day as decimal numbers between dashes.\<close>

fun ymd_strptime :: "json \<Rightarrow> py_error + nat \<times> nat \<times> nat" where
  "ymd_strptime (JStr s) =
     (case map decimal (split_on CHR ''-'' s) of
        [Some y, Some m, Some d] \<Rightarrow>
          (if 1 \<le> m \<and> m \<le> 12 \<and> 1 \<le> d \<and> d \<le> 31 then Inr (y, m, d) else Inl ValueError)
      | _ \<Rightarrow> Inl ValueError)"
| "ymd_strptime _ = Inl TypeError"

text \<open>The documents of the examples.\<close>

definition subnet_doc :: json where
  "subnet_doc =
     JObj [(''subnet'', JObj [(''ip'', JStr ''10.0.0.0''), (''mask'', JInt 24),
       (''gateway'', JStr ''10.0.0.1''), (''server_ip'', JStr ''192.0.2.7''),
       (''failover'', JBool False), (''locked'', JBool False),
       (''traffic_warnings'', JBool False), (''traffic_hourly'', JInt 100),
       (''traffic_daily'', JInt 500), (''traffic_monthly'', JInt 2)])]"

definition ip_doc :: json where
  "ip_doc =
     JObj [(''ip'', JObj [(''ip'', JStr ''192.0.2.7''), (''server_ip'', JStr ''192.0.2.7''),
       (''locked'', JBool False), (''separate_mac'', JNull),
       (''traffic_warnings'', JBool False), (''traffic_hourly'', JInt 100),
       (''traffic_daily'', JInt 500), (''traffic_monthly'', JInt 2)])]"

definition server_entry :: "json \<Rightarrow> json \<Rightarrow> json" where
  "server_entry server_ip server_ipv6_net =
     JObj [(''server_ip'', server_ip), (''server_ipv6_net'', server_ipv6_net),
       (''server_number'', JInt 321), (''server_name'', JStr ''web1''),
       (''product'', JStr ''EX 40''), (''dc'', JStr ''FSN1-DC8''), (''traffic'', JStr ''5 TB''),
       (''status'', JStr ''ready''),
       (''subnet'', JList [JObj [(''ip'', JStr ''2001:db8:0:1::''), (''mask'', JStr ''64'')]]),
       (''cancelled'', JBool False), (''paid_until'', JStr ''2026-12-31''),
       (''linked_storagebox'', JNull)]"

definition server_doc :: json where
  "server_doc = JObj [(''server'', server_entry (JStr ''192.0.2.7'') (JStr ''2001:db8:0:1::''))]"

definition member_ip :: IpAddress where
  "member_ip =
     \<lparr>ia_subnet_ip = JStr ''10.0.0.5'', ia_subnet_addr = Some (JStr ''10.0.0.0''),
      ia_ip = Some (JStr ''10.0.0.5''), ia_server_ip = Some (JStr ''192.0.2.7''),
      ia_locked = Some (JBool False), ia_separate_mac = Some JNull,
      ia_traffic_warnings = Some (JBool False), ia_traffic_hourly = Some (JInt 100),
      ia_traffic_daily = Some (JInt 500), ia_traffic_monthly = Some (JInt 2)\<rparr>"

text \<open>The objects that the constructors build from the example documents.\<close>

definition direct_ip :: IpAddress where
  "direct_ip =
     \<lparr>ia_subnet_ip = JNull, ia_subnet_addr = None,
      ia_ip = Some (JStr ''192.0.2.7''), ia_server_ip = Some (JStr ''192.0.2.7''),
      ia_locked = Some (JBool False), ia_separate_mac = Some JNull,
      ia_traffic_warnings = Some (JBool False), ia_traffic_hourly = Some (JInt 100),
      ia_traffic_daily = Some (JInt 500), ia_traffic_monthly = Some (JInt 2)\<rparr>"

definition subnet_10 :: Subnet where
  "subnet_10 =
     \<lparr>sn_net_ip = Some (JStr ''10.0.0.0''), sn_mask = Some (JInt 24),
      sn_gateway = Some (JStr ''10.0.0.1''), sn_server_ip = Some (JStr ''192.0.2.7''),
      sn_failover = Some (JBool False), sn_locked = Some (JBool False),
      sn_traffic_warnings = Some (JBool False), sn_traffic_hourly = Some (JInt 100),
      sn_traffic_daily = Some (JInt 500), sn_traffic_monthly = Some (JInt 2),
      sn_is_ipv6 = Some False, sn_numeric_net_ip = Some 167772160,
      sn_numeric_gateway = Some 167772161,
      sn_numeric_range = Some (167772160, 167772415)\<rparr>"

definition server_321 :: "(nat \<times> nat \<times> nat) Server" where
  "server_321 =
     \<lparr>srv_ip = Some (JStr ''192.0.2.7''), srv_number = Some (JInt 321),
      srv_name = Some (JStr ''web1''), srv_product = Some (JStr ''EX 40''),
      srv_datacenter = Some (JStr ''FSN1-DC8''), srv_traffic = Some (JStr ''5 TB''),
      srv_status = Some (JStr ''ready''),
      srv_subnets = Some (JList [JObj [(''ip'', JStr ''2001:db8:0:1::''), (''mask'', JStr ''64'')]]),
      srv_cancelled = Some (JBool False), srv_paid_until = Some (2026, 12, 31),
      srv_linked_storagebox = Some JNull,
      srv_rescue = Some RescueSystem_init,
      srv_ips = Some \<lparr>im_main_ip = JStr ''192.0.2.7''\<rparr>,
      srv_admin_account = None\<rparr>"

definition admin_4711 :: AdminAccount where
  "admin_4711 =
     \<lparr>aa_serverid = JInt 321, aa_exists = True, aa_login = Some ''K4711'', aa_passwd = None\<rparr>"

section \<open>Properties of RescueSystem\<close>

lemma update_status_given:
  assumes "data \<noteq> JNull" "getitem data ''rescue'' = Inr r"
    "getitem r ''active'' = Inr a" "getitem r ''password'' = Inr p"
    "getitem r ''authorized_key'' = Inr k"
  shows "RescueSystem_update_status T number data rs n =
    (Inr (), \<lparr>rs_active = a, rs_password = p, rs_authorized_keys = k\<rparr>, n)"
  using assms by (simp add: RescueSystem_update_status_def)

lemma update_status_fetch_sent:
  "sent (snd (snd (RescueSystem_update_status T number JNull rs n))) = sent n @ [Get (BootRescuePath number)]"
  by (simp add: RescueSystem_update_status_def conn_get_def conn_call_def split: prod.splits sum.splits)

lemma update_status_fetch:
  assumes "conn_answer T (world n) (Get (BootRescuePath number)) = (Inr data, w')"
    "getitem data ''rescue'' = Inr r"
    "getitem r ''active'' = Inr a" "getitem r ''password'' = Inr p"
    "getitem r ''authorized_key'' = Inr k"
  shows "RescueSystem_update_status T number JNull rs n =
    (Inr (), \<lparr>rs_active = a, rs_password = p, rs_authorized_keys = k\<rparr>,
     \<lparr>world = w', sent = sent n @ [Get (BootRescuePath number)]\<rparr>)"
  using assms by (simp add: RescueSystem_update_status_def conn_get_def conn_call_def)

lemma property_no_mutation:
  "RescueSystem_property field T number rs n = (r, rs1, n1) \<Longrightarrow>
     filter is_mutation (sent n1) = filter is_mutation (sent n)"
  using update_status_fetch_sent [of T number rs n]
  by (auto simp: RescueSystem_property_def split: if_splits prod.splits sum.splits)

lemmas rescue_eval = rescue_doc_def rescue_transport_def RescueSystem_init_def
  RescueSystem_active_def RescueSystem_password_def RescueSystem_property_def
  RescueSystem_update_status_def RescueSystem_activate_def RescueSystem_rescue_action_def
  activate_opts_def conn_get_def conn_request_def conn_call_def

text \<open>
  Claim C6. \<^verbatim>\<open>activate\<close> does nothing when the status (cached, or fetched by the
  \<^verbatim>\<open>active\<close> property) is true: no mutating request is sent, and nothing at all
  when the status was cached. When the status is false it sends one \<^verbatim>\<open>post\<close> to the
  rescue path and takes the three fields from the reply; when the reply reports the
  system active, a second call in a row sends nothing, so the two calls together
  make exactly one mutation.
\<close>

theorem activate_noop_when_active:
  "(RescueSystem_active T number rs n = (Inr v, rs1, n1) \<and> truthy v \<longrightarrow>
      RescueSystem_activate T number bits os keys rs n = (Inr (), rs1, n1)
      \<and> filter is_mutation (sent n1) = filter is_mutation (sent n)
      \<and> (rs_active rs \<noteq> JNull \<longrightarrow> rs1 = rs \<and> n1 = n))
   \<and> (RescueSystem_active T number rs n = (Inr v, rs1, n1) \<and> \<not> truthy v
       \<and> activate_opts bits os keys = Inr opts
       \<and> conn_answer T (world n1) (Request ''post'' (BootRescuePath number) (Some opts))
            = (Inr reply, w2)
       \<and> reply \<noteq> JNull \<and> getitem reply ''rescue'' = Inr r
       \<and> getitem r ''active'' = Inr a \<and> getitem r ''password'' = Inr p
       \<and> getitem r ''authorized_key'' = Inr k \<longrightarrow>
      RescueSystem_activate T number bits os keys rs n =
        (Inr (), \<lparr>rs_active = a, rs_password = p, rs_authorized_keys = k\<rparr>,
         \<lparr>world = w2,
          sent = sent n1 @ [Request ''post'' (BootRescuePath number) (Some opts)]\<rparr>)
      \<and> (truthy a \<longrightarrow>
           activate_twice T number bits os keys rs n =
             (Inr (), \<lparr>rs_active = a, rs_password = p, rs_authorized_keys = k\<rparr>,
              \<lparr>world = w2,
               sent = sent n1 @ [Request ''post'' (BootRescuePath number) (Some opts)]\<rparr>)
           \<and> filter is_mutation
                 (sent (snd (snd (activate_twice T number bits os keys rs n))))
               = filter is_mutation (sent n)
                   @ [Request ''post'' (BootRescuePath number) (Some opts)]))"
proof -
  let ?new = "\<lparr>rs_active = a, rs_password = p, rs_authorized_keys = k\<rparr>"
  let ?rq = "Request ''post'' (BootRescuePath number) (Some opts)"
  have noop: "RescueSystem_activate T number bits os keys rs n = (Inr (), rs1, n1)"
    if "RescueSystem_active T number rs n = (Inr v, rs1, n1)" "truthy v"
    for rs rs1 v and n n1 :: "'a net"
    using that by (simp add: RescueSystem_activate_def)
  have nomut: "filter is_mutation (sent n1) = filter is_mutation (sent n)"
    if "RescueSystem_active T number rs n = (Inr v, rs1, n1)"
    using that property_no_mutation [of rs_active T number rs n "Inr v" rs1 n1]
    by (simp add: RescueSystem_active_def)
  have cached: "rs1 = rs \<and> n1 = n"
    if "RescueSystem_active T number rs n = (Inr v, rs1, n1)" "rs_active rs \<noteq> JNull"
    using that by (simp add: RescueSystem_active_def RescueSystem_property_def)
  have post: "RescueSystem_activate T number bits os keys rs n =
        (Inr (), ?new, \<lparr>world = w2, sent = sent n1 @ [?rq]\<rparr>)"
    if "RescueSystem_active T number rs n = (Inr v, rs1, n1)" "\<not> truthy v"
       "activate_opts bits os keys = Inr opts"
       "conn_answer T (world n1) ?rq = (Inr reply, w2)"
       "reply \<noteq> JNull" "getitem reply ''rescue'' = Inr r"
       "getitem r ''active'' = Inr a" "getitem r ''password'' = Inr p"
       "getitem r ''authorized_key'' = Inr k"
    using that
      update_status_given [of reply r a p k T number rs1
        "\<lparr>world = w2, sent = sent n1 @ [?rq]\<rparr>"]
    by (simp add: RescueSystem_activate_def RescueSystem_rescue_action_def
        conn_request_def conn_call_def)
  have second: "RescueSystem_activate T number bits os keys ?new m = (Inr (), ?new, m)"
    if "truthy a" for m :: "'a net"
  proof -
    from that have "a \<noteq> JNull" by auto
    then have "RescueSystem_active T number ?new m = (Inr a, ?new, m)"
      by (simp add: RescueSystem_active_def RescueSystem_property_def)
    from noop [OF this that] show ?thesis .
  qed
  have twice: "activate_twice T number bits os keys rs n =
        (Inr (), ?new, \<lparr>world = w2, sent = sent n1 @ [?rq]\<rparr>)"
    if "RescueSystem_active T number rs n = (Inr v, rs1, n1)" "\<not> truthy v"
       "activate_opts bits os keys = Inr opts"
       "conn_answer T (world n1) ?rq = (Inr reply, w2)"
       "reply \<noteq> JNull" "getitem reply ''rescue'' = Inr r"
       "getitem r ''active'' = Inr a" "getitem r ''password'' = Inr p"
       "getitem r ''authorized_key'' = Inr k" "truthy a"
    using post [OF that(1-9)] second [OF that(10)] by (simp add: activate_twice_def)
  show ?thesis
    using noop nomut cached post twice by (simp add: nomut)
qed

theorem activate_noop_when_active_witness:
  "RescueSystem_active rescue_transport (JInt 321)
       \<lparr>rs_active = JBool True, rs_password = JStr ''s3cret'', rs_authorized_keys = JList []\<rparr>
       \<lparr>world = True, sent = []\<rparr>
     = (Inr (JBool True),
        \<lparr>rs_active = JBool True, rs_password = JStr ''s3cret'', rs_authorized_keys = JList []\<rparr>,
        \<lparr>world = True, sent = []\<rparr>)
   \<and> truthy (JBool True)
   \<and> RescueSystem_activate rescue_transport (JInt 321) (JInt 64) (JStr ''linux'') JNull
       \<lparr>rs_active = JBool True, rs_password = JStr ''s3cret'', rs_authorized_keys = JList []\<rparr>
       \<lparr>world = True, sent = []\<rparr>
     = (Inr (),
        \<lparr>rs_active = JBool True, rs_password = JStr ''s3cret'', rs_authorized_keys = JList []\<rparr>,
        \<lparr>world = True, sent = []\<rparr>)
   \<and> RescueSystem_active rescue_transport (JInt 321) RescueSystem_init
       \<lparr>world = False, sent = []\<rparr>
     = (Inr (JBool False),
        \<lparr>rs_active = JBool False, rs_password = JNull, rs_authorized_keys = JList []\<rparr>,
        \<lparr>world = False, sent = [Get (BootRescuePath (JInt 321))]\<rparr>)
   \<and> \<not> truthy (JBool False)
   \<and> activate_opts (JInt 64) (JStr ''linux'') JNull
     = Inr (JObj [(''os'', JStr ''linux''), (''arch'', JInt 64)])
   \<and> activate_twice rescue_transport (JInt 321) (JInt 64) (JStr ''linux'') JNull
       RescueSystem_init \<lparr>world = False, sent = []\<rparr>
     = (Inr (),
        \<lparr>rs_active = JBool True, rs_password = JStr ''s3cret'', rs_authorized_keys = JList []\<rparr>,
        \<lparr>world = True,
         sent = [Get (BootRescuePath (JInt 321)),
                 Request ''post'' (BootRescuePath (JInt 321))
                   (Some (JObj [(''os'', JStr ''linux''), (''arch'', JInt 64)]))]\<rparr>)
   \<and> filter is_mutation (sent (snd (snd (activate_twice rescue_transport (JInt 321) (JInt 64)
         (JStr ''linux'') JNull RescueSystem_init \<lparr>world = False, sent = []\<rparr>))))
     = [Request ''post'' (BootRescuePath (JInt 321))
          (Some (JObj [(''os'', JStr ''linux''), (''arch'', JInt 64)]))]"
proof -
  let ?on = "\<lparr>rs_active = JBool True, rs_password = JStr ''s3cret'',
              rs_authorized_keys = JList []\<rparr>"
  let ?off = "\<lparr>rs_active = JBool False, rs_password = JNull, rs_authorized_keys = JList []\<rparr>"
  let ?opts = "JObj [(''os'', JStr ''linux''), (''arch'', JInt 64)]"
  let ?n1 = "\<lparr>world = False, sent = [Get (BootRescuePath (JInt 321))]\<rparr>"
  have h1: "RescueSystem_active rescue_transport (JInt 321) ?on \<lparr>world = True, sent = []\<rparr>
      = (Inr (JBool True), ?on, \<lparr>world = True, sent = []\<rparr>)"
    by (simp add: rescue_eval)
  have h2: "RescueSystem_active rescue_transport (JInt 321) RescueSystem_init
       \<lparr>world = False, sent = []\<rparr> = (Inr (JBool False), ?off, ?n1)"
    by (simp add: rescue_eval)
  have h3: "activate_opts (JInt 64) (JStr ''linux'') JNull = Inr ?opts"
    by (simp add: rescue_eval)
  have h4: "conn_answer rescue_transport (world ?n1)
       (Request ''post'' (BootRescuePath (JInt 321)) (Some ?opts)) = (Inr (rescue_doc True), True)"
    by (simp add: rescue_eval)
  have h5: "rescue_doc True \<noteq> JNull"
    "getitem (rescue_doc True) ''rescue'' = Inr (JObj [(''active'', JBool True),
        (''password'', JStr ''s3cret''), (''authorized_key'', JList [])])"
    by (simp_all add: rescue_eval)
  note a = activate_noop_when_active [where T = rescue_transport and number = "JInt 321"
      and rs = ?on and n = "\<lparr>world = True, sent = []\<rparr>" and v = "JBool True" and ?rs1.0 = ?on
      and ?n1.0 = "\<lparr>world = True, sent = []\<rparr>" and bits = "JInt 64" and os = "JStr ''linux''"
      and keys = JNull, THEN conjunct1]
  note b = activate_noop_when_active [where T = rescue_transport and number = "JInt 321"
      and rs = RescueSystem_init and n = "\<lparr>world = False, sent = []\<rparr>"
      and v = "JBool False" and ?rs1.0 = ?off and ?n1.0 = ?n1 and bits = "JInt 64"
      and os = "JStr ''linux''" and keys = JNull and opts = ?opts
      and reply = "rescue_doc True" and ?w2.0 = True
      and r = "JObj [(''active'', JBool True), (''password'', JStr ''s3cret''),
                     (''authorized_key'', JList [])]"
      and a = "JBool True" and p = "JStr ''s3cret''" and k = "JList []", THEN conjunct2]
  show ?thesis using a b h1 h2 h3 h4 h5 by simp
qed

text \<open>
  Claim C10. For each of the properties \<^verbatim>\<open>active\<close>, \<^verbatim>\<open>password\<close> and
  \<^verbatim>\<open>authorized_keys\<close>: when the cached field is not \<^verbatim>\<open>None\<close> the read returns
  it and sends nothing; when it is \<^verbatim>\<open>None\<close> the read sends exactly one status fetch,
  and a fetched document that has the three entries replaces all three cached fields.
  Hence a field whose server-side value is \<^verbatim>\<open>None\<close> stays \<^verbatim>\<open>None\<close> after the
  fetch, and a second read fetches again.
\<close>

theorem rescue_property_fetch_iff_none:
  assumes pf: "(getter, field) \<in> {(RescueSystem_active, rs_active),
      (RescueSystem_password, rs_password), (RescueSystem_authorized_keys, rs_authorized_keys)}"
  shows
   "(field rs \<noteq> JNull \<longrightarrow>
       getter T number rs n = (Inr (field rs), rs, n))
    \<and> (field rs = JNull \<longrightarrow>
       sent (snd (snd (getter T number rs n)))
         = sent n @ [Get (BootRescuePath number)])
    \<and> (field rs = JNull
        \<and> conn_answer T (world n) (Get (BootRescuePath number)) = (Inr doc, w')
        \<and> getitem doc ''rescue'' = Inr r
        \<and> getitem r ''active'' = Inr a \<and> getitem r ''password'' = Inr p
        \<and> getitem r ''authorized_key'' = Inr k \<longrightarrow>
       getter T number rs n =
         (Inr (field \<lparr>rs_active = a, rs_password = p, rs_authorized_keys = k\<rparr>),
          \<lparr>rs_active = a, rs_password = p, rs_authorized_keys = k\<rparr>,
          \<lparr>world = w', sent = sent n @ [Get (BootRescuePath number)]\<rparr>))
    \<and> (field rs = JNull
        \<and> conn_answer T (world n) (Get (BootRescuePath number)) = (Inr doc, w')
        \<and> getitem doc ''rescue'' = Inr r
        \<and> getitem r ''active'' = Inr a \<and> getitem r ''password'' = Inr p
        \<and> getitem r ''authorized_key'' = Inr k
        \<and> field \<lparr>rs_active = a, rs_password = p, rs_authorized_keys = k\<rparr> = JNull \<longrightarrow>
       sent (snd (snd (two_reads getter T number rs n)))
         = sent n @ [Get (BootRescuePath number), Get (BootRescuePath number)])"
proof -
  let ?new = "\<lparr>rs_active = a, rs_password = p, rs_authorized_keys = k\<rparr>"
  let ?g = "Get (BootRescuePath number)"
  from pf have getter_eq: "getter = RescueSystem_property field"
    by (auto simp: RescueSystem_active_def RescueSystem_password_def
        RescueSystem_authorized_keys_def)
  have cached: "field rs \<noteq> JNull \<Longrightarrow>
      RescueSystem_property field T number rs n = (Inr (field rs), rs, n)" for rs and n :: "'a net"
    by (simp add: RescueSystem_property_def)
  have one: "field rs = JNull \<Longrightarrow>
      sent (snd (snd (RescueSystem_property field T number rs n))) = sent n @ [?g]"
    for rs and n :: "'a net"
    using update_status_fetch_sent [of T number rs n]
    by (auto simp: RescueSystem_property_def split: prod.splits sum.splits)
  have fill: "RescueSystem_property field T number rs n =
         (Inr (field ?new), ?new, \<lparr>world = w', sent = sent n @ [?g]\<rparr>)"
    if "field rs = JNull" "conn_answer T (world n) ?g = (Inr doc, w')"
       "getitem doc ''rescue'' = Inr r" "getitem r ''active'' = Inr a"
       "getitem r ''password'' = Inr p" "getitem r ''authorized_key'' = Inr k"
    using that update_status_fetch [of T n number doc w' r a p k rs]
    by (simp add: RescueSystem_property_def)
  have again: "sent (snd (snd (two_reads getter T number rs n))) = sent n @ [?g, ?g]"
    if "field rs = JNull" "conn_answer T (world n) ?g = (Inr doc, w')"
       "getitem doc ''rescue'' = Inr r" "getitem r ''active'' = Inr a"
       "getitem r ''password'' = Inr p" "getitem r ''authorized_key'' = Inr k"
       "field ?new = JNull"
    using fill [OF that(1-6)] one [of ?new "\<lparr>world = w', sent = sent n @ [?g]\<rparr>"] that(7)
    by (simp add: two_reads_def getter_eq)
  show ?thesis unfolding getter_eq using cached one fill again [unfolded getter_eq] by blast
qed

theorem rescue_property_fetch_iff_none_witness:
  "rs_password \<lparr>rs_active = JBool True, rs_password = JStr ''s3cret'',
                 rs_authorized_keys = JList []\<rparr> \<noteq> JNull
   \<and> RescueSystem_password rescue_transport (JInt 321)
        \<lparr>rs_active = JBool True, rs_password = JStr ''s3cret'', rs_authorized_keys = JList []\<rparr>
        \<lparr>world = False, sent = []\<rparr>
      = (Inr (JStr ''s3cret''),
         \<lparr>rs_active = JBool True, rs_password = JStr ''s3cret'', rs_authorized_keys = JList []\<rparr>,
         \<lparr>world = False, sent = []\<rparr>)
   \<and> rs_password RescueSystem_init = JNull
   \<and> conn_answer rescue_transport False (Get (BootRescuePath (JInt 321)))
      = (Inr (rescue_doc False), False)
   \<and> RescueSystem_password rescue_transport (JInt 321) RescueSystem_init
        \<lparr>world = False, sent = []\<rparr>
      = (Inr JNull,
         \<lparr>rs_active = JBool False, rs_password = JNull, rs_authorized_keys = JList []\<rparr>,
         \<lparr>world = False, sent = [Get (BootRescuePath (JInt 321))]\<rparr>)
   \<and> sent (snd (snd (two_reads RescueSystem_password rescue_transport (JInt 321)
        RescueSystem_init \<lparr>world = False, sent = []\<rparr>)))
      = [Get (BootRescuePath (JInt 321)), Get (BootRescuePath (JInt 321))]"
proof -
  let ?on = "\<lparr>rs_active = JBool True, rs_password = JStr ''s3cret'',
              rs_authorized_keys = JList []\<rparr>"
  have m: "(RescueSystem_password, rs_password) \<in> {(RescueSystem_active, rs_active),
      (RescueSystem_password, rs_password), (RescueSystem_authorized_keys, rs_authorized_keys)}"
    by simp
  have h1: "conn_answer rescue_transport False (Get (BootRescuePath (JInt 321)))
      = (Inr (rescue_doc False), False)"
    by (simp add: rescue_eval)
  have h2: "getitem (rescue_doc False) ''rescue'' = Inr (JObj [(''active'', JBool False),
        (''password'', JNull), (''authorized_key'', JList [])])"
    by (simp add: rescue_eval)
  note a = rescue_property_fetch_iff_none [OF m, where rs = ?on and T = rescue_transport
      and number = "JInt 321" and n = "\<lparr>world = False, sent = []\<rparr>", THEN conjunct1]
  note b = rescue_property_fetch_iff_none [OF m, where rs = RescueSystem_init
      and T = rescue_transport and number = "JInt 321" and n = "\<lparr>world = False, sent = []\<rparr>"
      and doc = "rescue_doc False" and w' = False
      and r = "JObj [(''active'', JBool False), (''password'', JNull),
                     (''authorized_key'', JList [])]"
      and a = "JBool False" and p = JNull and k = "JList []", THEN conjunct2]
  show ?thesis using a b h1 h2 by (simp add: RescueSystem_init_def)
qed

section \<open>Properties of AdminAccount\<close>

lemma update_info_sent:
  "sent (snd (snd (AdminAccount_update_info T acct n))) = sent n @ [ScraperLogin]
   \<or> sent (snd (snd (AdminAccount_update_info T acct n)))
       = sent n @ [ScraperLogin, ScraperRequest (AdminPath (aa_serverid acct)) None None]"
  by (auto simp: AdminAccount_update_info_def scraper_login_def scraper_request_def
      split: prod.splits sum.splits option.splits)

lemma update_info_passwd:
  "AdminAccount_update_info T acct n = (r, acct', n') \<Longrightarrow>
     aa_passwd acct' = aa_passwd acct \<and> aa_serverid acct' = aa_serverid acct"
  by (auto simp: AdminAccount_update_info_def split: prod.splits sum.splits option.splits if_splits)

text \<open>
  Claim C7. \<^verbatim>\<open>delete\<close> on an account with \<^verbatim>\<open>exists = False\<close> returns at once: no
  request is sent and the account is unchanged. With \<^verbatim>\<open>exists = True\<close> it first
  requests the delete endpoint; a page with the success marker is followed by
  discovery, whose outcome is the outcome of \<^verbatim>\<open>delete\<close>, and a page without it
  fails the assertion.
\<close>

theorem delete_noop_when_missing:
  "(\<not> aa_exists acct \<longrightarrow> AdminAccount_delete T acct n = (Inr (), acct, n))
   \<and> (aa_exists acct
       \<and> scraper_answer T (world n) (ScraperRequest (AdminDeletePath (aa_serverid acct)) None None)
            = (Inr resp, w1)
       \<and> read_decode resp = Inr html \<longrightarrow>
        (py_in ''msgbox_success'' html \<longrightarrow>
           AdminAccount_delete T acct n =
             AdminAccount_update_info T acct
               \<lparr>world = w1,
                sent = sent n @ [ScraperRequest (AdminDeletePath (aa_serverid acct)) None None]\<rparr>)
        \<and> (\<not> py_in ''msgbox_success'' html \<longrightarrow>
           AdminAccount_delete T acct n =
             (Inl AssertionError, acct,
              \<lparr>world = w1,
               sent = sent n @ [ScraperRequest (AdminDeletePath (aa_serverid acct)) None None]\<rparr>)))"
  by (simp add: AdminAccount_delete_def scraper_request_def)

lemmas admin_eval = scripted_scraper_def page_def demo_csrf_token_def form_page_def
  present_page_def missing_page_def success_page_def error_page_def
  AdminAccount_delete_def AdminAccount_update_info_def AdminAccount_create_def
  create_failmsg_def create_path_def create_data_def
  scraper_request_def scraper_login_def read_decode_def create_failure_def
  login_re_def ul_re_def li_re_def lit_def group0_def group1_def whitespace_def

theorem delete_noop_when_missing_witness:
  "\<not> aa_exists \<lparr>aa_serverid = JInt 321, aa_exists = False, aa_login = None, aa_passwd = None\<rparr>
   \<and> AdminAccount_delete scripted_scraper
        \<lparr>aa_serverid = JInt 321, aa_exists = False, aa_login = None, aa_passwd = None\<rparr>
        \<lparr>world = [page success_page, page missing_page], sent = []\<rparr>
      = (Inr (), \<lparr>aa_serverid = JInt 321, aa_exists = False, aa_login = None, aa_passwd = None\<rparr>,
         \<lparr>world = [page success_page, page missing_page], sent = []\<rparr>)
   \<and> aa_exists \<lparr>aa_serverid = JInt 321, aa_exists = True, aa_login = Some ''K4711'',
                  aa_passwd = None\<rparr>
   \<and> py_in ''msgbox_success'' success_page
   \<and> AdminAccount_delete scripted_scraper
        \<lparr>aa_serverid = JInt 321, aa_exists = True, aa_login = Some ''K4711'', aa_passwd = None\<rparr>
        \<lparr>world = [page success_page, page missing_page], sent = []\<rparr>
      = (Inr (), \<lparr>aa_serverid = JInt 321, aa_exists = False, aa_login = Some ''K4711'',
                   aa_passwd = None\<rparr>,
         \<lparr>world = [],
          sent = [ScraperRequest (AdminDeletePath (JInt 321)) None None, ScraperLogin,
                  ScraperRequest (AdminPath (JInt 321)) None None]\<rparr>)
   \<and> \<not> py_in ''msgbox_success'' error_page
   \<and> AdminAccount_delete scripted_scraper
        \<lparr>aa_serverid = JInt 321, aa_exists = True, aa_login = Some ''K4711'', aa_passwd = None\<rparr>
        \<lparr>world = [page error_page], sent = []\<rparr>
      = (Inl AssertionError,
         \<lparr>aa_serverid = JInt 321, aa_exists = True, aa_login = Some ''K4711'', aa_passwd = None\<rparr>,
         \<lparr>world = [], sent = [ScraperRequest (AdminDeletePath (JInt 321)) None None]\<rparr>)"
proof -
  let ?gone = "\<lparr>aa_serverid = JInt 321, aa_exists = False, aa_login = None, aa_passwd = None\<rparr>"
  let ?there = "\<lparr>aa_serverid = JInt 321, aa_exists = True, aa_login = Some ''K4711'',
                 aa_passwd = None\<rparr>"
  let ?rq = "ScraperRequest (AdminDeletePath (JInt 321)) None None"
  have m1: "py_in ''msgbox_success'' success_page" by (simp add: success_page_def)
  have m2: "\<not> py_in ''msgbox_success'' error_page" by (simp add: error_page_def)
  have u: "AdminAccount_update_info scripted_scraper ?there
      \<lparr>world = [page missing_page], sent = [?rq]\<rparr>
     = (Inr (), ?there\<lparr>aa_exists := False\<rparr>,
        \<lparr>world = [], sent = [?rq, ScraperLogin, ScraperRequest (AdminPath (JInt 321)) None None]\<rparr>)"
    by (simp add: admin_eval)
  note a = delete_noop_when_missing [where acct = ?gone and T = scripted_scraper
      and n = "\<lparr>world = [page success_page, page missing_page], sent = []\<rparr>", THEN conjunct1]
  note b = delete_noop_when_missing [where acct = ?there and T = scripted_scraper
      and n = "\<lparr>world = [page success_page, page missing_page], sent = []\<rparr>"
      and resp = "page success_page" and ?w1.0 = "[page missing_page]" and html = success_page,
      THEN conjunct2]
  note c = delete_noop_when_missing [where acct = ?there and T = scripted_scraper
      and n = "\<lparr>world = [page error_page], sent = []\<rparr>"
      and resp = "page error_page" and ?w1.0 = "[]" and html = error_page, THEN conjunct2]
  show ?thesis using a b c m1 m2 u
    by (simp add: scripted_scraper_def page_def read_decode_def)
qed

text \<open>
  Claim C5, as amended. Once the form has given a token and the submission has been
  answered with a readable page: without the success marker \<^verbatim>\<open>create\<close> raises the
  failure built from the page (the message alone, or with the comma-joined entries of
  the error list) and leaves the account as it was; with the marker it runs discovery,
  fails as discovery fails, and otherwise returns the pair of the discovered login and
  the submitted password, which it also stores. So \<^verbatim>\<open>create\<close> returns exactly when the
  marker is there and discovery succeeds; the status code of the submission response
  plays no part, and \<^verbatim>\<open>exists\<close> is whatever discovery found.
\<close>

theorem create_outcome:
  assumes form: "scraper_answer T (world n)
        (ScraperRequest (AdminPath (aa_serverid acct)) None (Some ''POST'')) = (Inr form_response, w1)"
    and token: "read_decode form_response = Inr form" "csrf_token form = Some token"
    and passwd: "passwd = (case passwd_arg of None \<Rightarrow> genpasswd | Some p \<Rightarrow> p)"
    and submit: "scraper_answer T w1
        (ScraperRequest (create_path acct) (Some (create_data acct passwd token)) None)
          = (Inr resp, w2)"
    and html: "read_decode resp = Inr html"
    and n2: "n2 = \<lparr>world = w2,
        sent = sent n @ [ScraperRequest (AdminPath (aa_serverid acct)) None (Some ''POST''),
          ScraperRequest (create_path acct) (Some (create_data acct passwd token)) None]\<rparr>"
  shows
    "(\<not> py_in ''msgbox_success'' html \<longrightarrow>
        AdminAccount_create T csrf_token genpasswd passwd_arg acct n
          = (Inl (create_failure (create_failmsg acct) html), acct, n2))
     \<and> (py_in ''msgbox_success'' html \<longrightarrow>
          (\<forall>e acct' n3. AdminAccount_update_info T acct n2 = (Inl e, acct', n3) \<longrightarrow>
             AdminAccount_create T csrf_token genpasswd passwd_arg acct n = (Inl e, acct', n3))
        \<and> (\<forall>acct' n3. AdminAccount_update_info T acct n2 = (Inr (), acct', n3) \<longrightarrow>
             AdminAccount_create T csrf_token genpasswd passwd_arg acct n
               = (Inr (aa_login acct', Some passwd), acct'\<lparr>aa_passwd := Some passwd\<rparr>, n3)))
     \<and> ((\<exists>v acct' n3. AdminAccount_create T csrf_token genpasswd passwd_arg acct n
                          = (Inr v, acct', n3))
          \<longleftrightarrow> py_in ''msgbox_success'' html
              \<and> (\<exists>acct' n3. AdminAccount_update_info T acct n2 = (Inr (), acct', n3)))"
proof -
  let ?c = "AdminAccount_create T csrf_token genpasswd passwd_arg acct n"
  have step: "?c = (if \<not> py_in ''msgbox_success'' html
        then (Inl (create_failure (create_failmsg acct) html), acct, n2)
        else (case AdminAccount_update_info T acct n2 of
                (Inl e, acct', n3) \<Rightarrow> (Inl e, acct', n3)
              | (Inr u, acct', n3) \<Rightarrow>
                  (Inr (aa_login acct', Some passwd), acct'\<lparr>aa_passwd := Some passwd\<rparr>, n3)))"
    using form token submit html
    by (simp add: AdminAccount_create_def scraper_request_def n2 passwd [symmetric])
  have fail: "\<not> py_in ''msgbox_success'' html \<Longrightarrow>
      ?c = (Inl (create_failure (create_failmsg acct) html), acct, n2)"
    by (simp add: step)
  have disc_fail: "?c = (Inl e, acct', n3)"
    if "py_in ''msgbox_success'' html" "AdminAccount_update_info T acct n2 = (Inl e, acct', n3)"
    for e acct' n3
    using that by (simp add: step)
  have disc_ok: "?c = (Inr (aa_login acct', Some passwd), acct'\<lparr>aa_passwd := Some passwd\<rparr>, n3)"
    if "py_in ''msgbox_success'' html" "AdminAccount_update_info T acct n2 = (Inr (), acct', n3)"
    for acct' n3
    using that by (simp add: step)
  have iff: "(\<exists>v acct' n3. ?c = (Inr v, acct', n3))
      \<longleftrightarrow> py_in ''msgbox_success'' html
          \<and> (\<exists>acct' n3. AdminAccount_update_info T acct n2 = (Inr (), acct', n3))"
    by (auto simp: step split: prod.splits sum.splits)
  show ?thesis using fail disc_fail disc_ok iff by blast
qed

text \<open>
  Claim C5 as stated fails: a submission answered with the success marker, followed
  by an account page that shows no login, makes \<^verbatim>\<open>create\<close> return with
  \<^verbatim>\<open>exists = False\<close>; and the same submission followed by an account page with status
  500 makes \<^verbatim>\<open>create\<close> raise although the marker was there.
\<close>

theorem create_success_not_exists_counterexample:
  "py_in ''msgbox_success'' success_page
   \<and> AdminAccount_create scripted_scraper demo_csrf_token ''unused'' (Some ''correct horse battery'')
        \<lparr>aa_serverid = JInt 321, aa_exists = False, aa_login = None, aa_passwd = None\<rparr>
        \<lparr>world = [page form_page, page success_page, page missing_page], sent = []\<rparr>
      = (Inr (None, Some ''correct horse battery''),
         \<lparr>aa_serverid = JInt 321, aa_exists = False, aa_login = None,
          aa_passwd = Some ''correct horse battery''\<rparr>,
         \<lparr>world = [],
          sent = [ScraperRequest (AdminPath (JInt 321)) None (Some ''POST''),
                  ScraperRequest (AdminCreatePath (JInt 321))
                    (Some [(''password[new_password]'', JStr ''correct horse battery''),
                           (''password[new_password_repeat]'', JStr ''correct horse battery''),
                           (''password[_csrf_token]'', JStr ''tok123'')]) None,
                  ScraperLogin,
                  ScraperRequest (AdminPath (JInt 321)) None None]\<rparr>)
   \<and> fst (AdminAccount_create scripted_scraper demo_csrf_token ''unused''
          (Some ''correct horse battery'')
          \<lparr>aa_serverid = JInt 321, aa_exists = False, aa_login = None, aa_passwd = None\<rparr>
          \<lparr>world = [page form_page, page success_page,
                     \<lparr>status = 500, body = Some present_page\<rparr>], sent = []\<rparr>)
      = Inl AssertionError"
  by (simp add: admin_eval Let_def)

theorem create_outcome_witness:
  "\<not> py_in ''msgbox_success'' error_page
   \<and> AdminAccount_create scripted_scraper demo_csrf_token ''unused'' (Some ''pw'')
        \<lparr>aa_serverid = JInt 321, aa_exists = False, aa_login = None, aa_passwd = None\<rparr>
        \<lparr>world = [page form_page, \<lparr>status = 200, body = Some error_page\<rparr>], sent = []\<rparr>
      = (Inl (WebRobotError ''Unable to create admin account: too short, needs a digit''),
         \<lparr>aa_serverid = JInt 321, aa_exists = False, aa_login = None, aa_passwd = None\<rparr>,
         \<lparr>world = [],
          sent = [ScraperRequest (AdminPath (JInt 321)) None (Some ''POST''),
                  ScraperRequest (AdminCreatePath (JInt 321))
                    (Some [(''password[new_password]'', JStr ''pw''),
                           (''password[new_password_repeat]'', JStr ''pw''),
                           (''password[_csrf_token]'', JStr ''tok123'')]) None]\<rparr>)
   \<and> py_in ''msgbox_success'' success_page
   \<and> AdminAccount_create scripted_scraper demo_csrf_token ''Xq7/generated(20..40)'' None
        \<lparr>aa_serverid = JInt 321, aa_exists = False, aa_login = None, aa_passwd = None\<rparr>
        \<lparr>world = [page form_page, \<lparr>status = 404, body = Some success_page\<rparr>, page present_page],
         sent = []\<rparr>
      = (Inr (Some ''K4711'', Some ''Xq7/generated(20..40)''),
         \<lparr>aa_serverid = JInt 321, aa_exists = True, aa_login = Some ''K4711'',
          aa_passwd = Some ''Xq7/generated(20..40)''\<rparr>,
         \<lparr>world = [],
          sent = [ScraperRequest (AdminPath (JInt 321)) None (Some ''POST''),
                  ScraperRequest (AdminCreatePath (JInt 321))
                    (Some [(''password[new_password]'', JStr ''Xq7/generated(20..40)''),
                           (''password[new_password_repeat]'', JStr ''Xq7/generated(20..40)''),
                           (''password[_csrf_token]'', JStr ''tok123'')]) None,
                  ScraperLogin,
                  ScraperRequest (AdminPath (JInt 321)) None None]\<rparr>)
   \<and> AdminAccount_create scripted_scraper demo_csrf_token ''unused'' (Some ''pw'')
        \<lparr>aa_serverid = JInt 321, aa_exists = True, aa_login = Some ''K4711'', aa_passwd = None\<rparr>
        \<lparr>world = [page form_page, page success_page], sent = []\<rparr>
      = (Inl (Other ''no response left''),
         \<lparr>aa_serverid = JInt 321, aa_exists = True, aa_login = Some ''K4711'', aa_passwd = None\<rparr>,
         \<lparr>world = [],
          sent = [ScraperRequest (AdminPath (JInt 321)) None (Some ''POST''),
                  ScraperRequest AdminUpdatePath
                    (Some [(''password[new_password]'', JStr ''pw''),
                           (''password[new_password_repeat]'', JStr ''pw''),
                           (''password[_csrf_token]'', JStr ''tok123''),
                           (''id'', JInt 321)]) None,
                  ScraperLogin,
                  ScraperRequest (AdminPath (JInt 321)) None None]\<rparr>)"
proof -
  let ?gone = "\<lparr>aa_serverid = JInt 321, aa_exists = False, aa_login = None, aa_passwd = None\<rparr>"
  let ?there = "\<lparr>aa_serverid = JInt 321, aa_exists = True, aa_login = Some ''K4711'',
                 aa_passwd = None\<rparr>"
  let ?form = "ScraperRequest (AdminPath (JInt 321)) None (Some ''POST'')"
  let ?gen = "''Xq7/generated(20..40)''"
  have tok: "read_decode (page form_page) = Inr form_page" "demo_csrf_token form_page = Some ''tok123''"
    by (simp_all add: admin_eval)
  have m1: "\<not> py_in ''msgbox_success'' error_page" by (simp add: error_page_def)
  have m2: "py_in ''msgbox_success'' success_page" by (simp add: success_page_def)
  have e: "create_failure (create_failmsg ?gone) error_page
      = WebRobotError ''Unable to create admin account: too short, needs a digit''"
    by (simp add: admin_eval)
  \<comment> \<open>a failed submission with an error list\<close>
  let ?n1 = "\<lparr>world = [page form_page, \<lparr>status = 200, body = Some error_page\<rparr>], sent = []\<rparr>"
  have a: "AdminAccount_create scripted_scraper demo_csrf_token ''unused'' (Some ''pw'') ?gone ?n1
      = (Inl (create_failure (create_failmsg ?gone) error_page), ?gone,
         \<lparr>world = [], sent = sent ?n1 @ [?form,
            ScraperRequest (create_path ?gone) (Some (create_data ?gone ''pw'' ''tok123'')) None]\<rparr>)"
    using create_outcome [where T = scripted_scraper and n = ?n1 and acct = ?gone
        and form_response = "page form_page"
        and ?w1.0 = "[\<lparr>status = 200, body = Some error_page\<rparr>]" and form = form_page
        and csrf_token = demo_csrf_token and token = "''tok123''" and passwd = "''pw''"
        and passwd_arg = "Some ''pw''" and genpasswd = "''unused''"
        and resp = "\<lparr>status = 200, body = Some error_page\<rparr>" and ?w2.0 = "[]"
        and html = error_page, OF _ tok _ _ _ refl, THEN conjunct1] m1
    by (simp add: scripted_scraper_def read_decode_def)
  \<comment> \<open>a successful submission (answered with status 404), generated password\<close>
  let ?n2 = "\<lparr>world = [page form_page, \<lparr>status = 404, body = Some success_page\<rparr>,
                       page present_page], sent = []\<rparr>"
  let ?sub2 = "ScraperRequest (create_path ?gone) (Some (create_data ?gone ?gen ''tok123'')) None"
  have u2: "AdminAccount_update_info scripted_scraper ?gone
        \<lparr>world = [page present_page], sent = sent ?n2 @ [?form, ?sub2]\<rparr>
      = (Inr (), ?there, \<lparr>world = [], sent = sent ?n2 @ [?form, ?sub2, ScraperLogin,
           ScraperRequest (AdminPath (JInt 321)) None None]\<rparr>)"
    by (simp add: admin_eval)
  have b: "AdminAccount_create scripted_scraper demo_csrf_token ?gen None ?gone ?n2
      = (Inr (Some ''K4711'', Some ?gen), ?there\<lparr>aa_passwd := Some ?gen\<rparr>,
         \<lparr>world = [], sent = sent ?n2 @ [?form, ?sub2, ScraperLogin,
           ScraperRequest (AdminPath (JInt 321)) None None]\<rparr>)"
    using create_outcome [where T = scripted_scraper and n = ?n2 and acct = ?gone
        and form_response = "page form_page"
        and ?w1.0 = "[\<lparr>status = 404, body = Some success_page\<rparr>, page present_page]"
        and form = form_page
        and csrf_token = demo_csrf_token and token = "''tok123''" and passwd = ?gen
        and passwd_arg = None and genpasswd = ?gen
        and resp = "\<lparr>status = 404, body = Some success_page\<rparr>" and ?w2.0 = "[page present_page]"
        and html = success_page, OF _ tok _ _ _ refl, THEN conjunct2, THEN conjunct1] m2 u2
    by (simp add: scripted_scraper_def read_decode_def)
  \<comment> \<open>a successful submission whose discovery fails\<close>
  let ?n3 = "\<lparr>world = [page form_page, page success_page], sent = []\<rparr>"
  let ?sub3 = "ScraperRequest (create_path ?there) (Some (create_data ?there ''pw'' ''tok123'')) None"
  have u3: "AdminAccount_update_info scripted_scraper ?there
        \<lparr>world = [], sent = sent ?n3 @ [?form, ?sub3]\<rparr>
      = (Inl (Other ''no response left''), ?there, \<lparr>world = [], sent = sent ?n3 @ [?form, ?sub3,
           ScraperLogin, ScraperRequest (AdminPath (JInt 321)) None None]\<rparr>)"
    by (simp add: admin_eval)
  have c: "AdminAccount_create scripted_scraper demo_csrf_token ''unused'' (Some ''pw'') ?there ?n3
      = (Inl (Other ''no response left''), ?there, \<lparr>world = [], sent = sent ?n3 @ [?form, ?sub3,
           ScraperLogin, ScraperRequest (AdminPath (JInt 321)) None None]\<rparr>)"
    using create_outcome [where T = scripted_scraper and n = ?n3 and acct = ?there
        and form_response = "page form_page"
        and ?w1.0 = "[page success_page]" and form = form_page
        and csrf_token = demo_csrf_token and token = "''tok123''" and passwd = "''pw''"
        and passwd_arg = "Some ''pw''" and genpasswd = "''unused''"
        and resp = "page success_page" and ?w2.0 = "[]"
        and html = success_page, OF _ tok _ _ _ refl, THEN conjunct2, THEN conjunct1] m2 u3
    by (simp add: scripted_scraper_def read_decode_def page_def)
  show ?thesis
    using a b c e m1 m2 by (simp add: create_path_def create_data_def)
qed

section \<open>Properties of the managers\<close>

lemma wrap_each_empty: "wrap_each mk (JList []) n = (Inr [], n)"
  by (simp add: wrap_each_def)

text \<open>
  Claim C1, evaluated on the code. The collection request raises a provider error
  with status 500. Iterating the \<open>IpManager\<close> gives the empty sequence, and iterating
  the \<open>SubnetManager\<close> raises \<^verbatim>\<open>UnboundLocalError\<close>: its handler assigns
  \<^verbatim>\<open>result\<close> for status 404 only and does not raise again. In neither case does the
  provider error reach the caller.
\<close>

theorem manager_iter_status_500:
  "IpManager_iter (raising_conn (RobotError (Some 500) ''Internal Server Error''))
       \<lparr>im_main_ip = JStr ''192.0.2.7''\<rparr> \<lparr>world = (), sent = []\<rparr>
     = (Inr [], \<lparr>world = (), sent = [Get (IpCollectionPath (JStr ''192.0.2.7''))]\<rparr>)
   \<and> SubnetManager_iter no_addr (raising_conn (RobotError (Some 500) ''Internal Server Error''))
       \<lparr>sm_main_ip = JStr ''192.0.2.7''\<rparr> \<lparr>world = (), sent = []\<rparr>
     = (Inl (UnboundLocalError ''result''),
        \<lparr>world = (), sent = [Get (SubnetCollectionPath (JStr ''192.0.2.7''))]\<rparr>)"
  by (simp add: IpManager_iter_def SubnetManager_iter_def raising_conn_def conn_get_def
      conn_call_def wrap_each_def)

text \<open>
  The same for every exception that \<^verbatim>\<open>except RobotError\<close> catches: \<open>IpManager\<close>
  gives the empty sequence whatever the status, and \<open>SubnetManager\<close> raises
  \<^verbatim>\<open>UnboundLocalError\<close> whenever the status is not 404.
\<close>

lemma ip_manager_catches_every_status:
  assumes "conn_answer T (world n) (Get (IpCollectionPath (im_main_ip mgr))) = (Inl e, w1)"
    and "robot_status e = Some st"
  shows "IpManager_iter T mgr n
    = (Inr [], \<lparr>world = w1, sent = sent n @ [Get (IpCollectionPath (im_main_ip mgr))]\<rparr>)"
  using assms
  by (simp add: IpManager_iter_def conn_get_def conn_call_def wrap_each_empty)

lemma subnet_manager_other_status_unbound:
  assumes "conn_answer T (world n) (Get (SubnetCollectionPath (sm_main_ip smgr))) = (Inl e, w2)"
    and "robot_status e = Some st" and "st \<noteq> Some 404"
  shows "SubnetManager_iter M T smgr n
    = (Inl (UnboundLocalError ''result''),
       \<lparr>world = w2, sent = sent n @ [Get (SubnetCollectionPath (sm_main_ip smgr))]\<rparr>)"
  using assms
  by (simp add: SubnetManager_iter_def conn_get_def conn_call_def)

text \<open>
  The part of the claim that the code keeps: the empty list, and the provider error
  with status 404, both give the empty sequence from both managers; and an exception
  that \<^verbatim>\<open>except RobotError\<close> does not catch reaches the caller unchanged.
\<close>

lemma manager_iter_normalises_empty:
  "(conn_answer T (world n) (Get (IpCollectionPath (im_main_ip mgr))) = (Inr (JList []), w1) \<longrightarrow>
      IpManager_iter T mgr n
        = (Inr [], \<lparr>world = w1, sent = sent n @ [Get (IpCollectionPath (im_main_ip mgr))]\<rparr>))
   \<and> (conn_answer T (world n) (Get (IpCollectionPath (im_main_ip mgr)))
         = (Inl (RobotError (Some 404) msg), w1) \<longrightarrow>
      IpManager_iter T mgr n
        = (Inr [], \<lparr>world = w1, sent = sent n @ [Get (IpCollectionPath (im_main_ip mgr))]\<rparr>))
   \<and> (conn_answer T (world n) (Get (IpCollectionPath (im_main_ip mgr))) = (Inl e, w1)
       \<and> robot_status e = None \<longrightarrow>
      IpManager_iter T mgr n
        = (Inl e, \<lparr>world = w1, sent = sent n @ [Get (IpCollectionPath (im_main_ip mgr))]\<rparr>))
   \<and> (conn_answer T (world n) (Get (SubnetCollectionPath (sm_main_ip smgr)))
         = (Inr (JList []), w2) \<longrightarrow>
      SubnetManager_iter M T smgr n
        = (Inr [],
           \<lparr>world = w2, sent = sent n @ [Get (SubnetCollectionPath (sm_main_ip smgr))]\<rparr>))
   \<and> (conn_answer T (world n) (Get (SubnetCollectionPath (sm_main_ip smgr)))
         = (Inl (RobotError (Some 404) msg2), w2) \<longrightarrow>
      SubnetManager_iter M T smgr n
        = (Inr [],
           \<lparr>world = w2, sent = sent n @ [Get (SubnetCollectionPath (sm_main_ip smgr))]\<rparr>))
   \<and> (conn_answer T (world n) (Get (SubnetCollectionPath (sm_main_ip smgr))) = (Inl e2, w2)
       \<and> robot_status e2 = None \<longrightarrow>
      SubnetManager_iter M T smgr n
        = (Inl e2,
           \<lparr>world = w2, sent = sent n @ [Get (SubnetCollectionPath (sm_main_ip smgr))]\<rparr>))"
  by (simp add: IpManager_iter_def SubnetManager_iter_def conn_get_def conn_call_def
      wrap_each_empty)

text \<open>A \<^verbatim>\<open>WebRobotError\<close> of the transport is caught as well, being a
  \<^verbatim>\<open>RobotError\<close> with status \<^verbatim>\<open>None\<close>.\<close>

lemma manager_iter_web_robot_error:
  "IpManager_iter (raising_conn (WebRobotError ''session expired''))
       \<lparr>im_main_ip = JStr ''192.0.2.7''\<rparr> \<lparr>world = (), sent = []\<rparr>
     = (Inr [], \<lparr>world = (), sent = [Get (IpCollectionPath (JStr ''192.0.2.7''))]\<rparr>)
   \<and> SubnetManager_iter no_addr (raising_conn (WebRobotError ''session expired''))
       \<lparr>sm_main_ip = JStr ''192.0.2.7''\<rparr> \<lparr>world = (), sent = []\<rparr>
     = (Inl (UnboundLocalError ''result''),
        \<lparr>world = (), sent = [Get (SubnetCollectionPath (JStr ''192.0.2.7''))]\<rparr>)"
  by (simp add: IpManager_iter_def SubnetManager_iter_def raising_conn_def conn_get_def
      conn_call_def wrap_each_def)

section \<open>Properties of IpAddress\<close>

lemma fetch_given:
  "result \<noteq> JNull \<Longrightarrow> fetch_if_none T result name attr mk n = (Inr result, n)"
  by (simp add: fetch_if_none_def)

lemma fetch_none:
  "fetch_if_none T JNull name (Some a) mk n =
     (fst (conn_answer T (world n) (Get (mk a))),
      \<lparr>world = snd (conn_answer T (world n) (Get (mk a))), sent = sent n @ [Get (mk a)]\<rparr>)"
  by (simp add: fetch_if_none_def conn_get_def conn_call_def split: prod.splits)

lemma getitem_setitem:
  "setitem d k v = Inr d' \<Longrightarrow> getitem d' k' = (if k' = k then Inr v else getitem d k')"
  by (cases d) (auto simp: update_conv')

lemma getitem_is_obj: "getitem d k = Inr v \<Longrightarrow> \<exists>kvs. d = JObj kvs"
  by (cases d) auto

lemma setitem_obj: "setitem (JObj kvs) k v = Inr (JObj (AList.update k v kvs))"
  by simp

lemma IpAddress_assign_fields:
  assumes "IpAddress_assign data ob = (Inr (), ob')"
  shows "Inr (the (ia_ip ob')) = getitem data ''ip''"
    and "Inr (the (ia_separate_mac ob')) = getitem data ''separate_mac''"
    and "ia_ip ob' \<noteq> None" and "ia_separate_mac ob' \<noteq> None"
    and "ia_subnet_ip ob' = ia_subnet_ip ob" and "ia_subnet_addr ob' = ia_subnet_addr ob"
  using assms
  by (auto simp: IpAddress_assign_def split: sum.splits)

lemma update_info_subnet_result:
  assumes sub: "ia_subnet_ip ob \<noteq> JNull"
    and ok: "IpAddress_update_info T res ob m = (Inr (), ob', m')"
  shows "ia_ip ob' = Some (ia_subnet_ip ob) \<and> ia_separate_mac ob' = Some JNull
    \<and> ia_subnet_ip ob' = ia_subnet_ip ob
    \<and> (\<exists>result' data a.
          fetch_if_none T res ''_subnet_addr'' (ia_subnet_addr ob) SubnetPath m = (Inr result', m')
          \<and> getitem result' ''subnet'' = Inr data \<and> getitem data ''ip'' = Inr a
          \<and> ia_subnet_addr ob' = Some a)"
proof -
  from sub ok obtain result' data a data1 data2 where
    f: "fetch_if_none T res ''_subnet_addr'' (ia_subnet_addr ob) SubnetPath m = (Inr result', m')"
    and d: "getitem result' ''subnet'' = Inr data" and a: "getitem data ''ip'' = Inr a"
    and s1: "setitem data ''ip'' (ia_subnet_ip ob) = Inr data1"
    and s2: "setitem data1 ''separate_mac'' JNull = Inr data2"
    and asg: "IpAddress_assign data2 (ob\<lparr>ia_subnet_addr := Some a\<rparr>) = (Inr (), ob')"
    by (auto simp: IpAddress_update_info_def Let_def split: prod.splits sum.splits)
  have g1: "getitem data2 ''ip'' = Inr (ia_subnet_ip ob)"
    using getitem_setitem [OF s2, of "''ip''"] getitem_setitem [OF s1, of "''ip''"] by simp
  have g2: "getitem data2 ''separate_mac'' = Inr JNull"
    using getitem_setitem [OF s2, of "''separate_mac''"] by simp
  from IpAddress_assign_fields [OF asg] g1 g2
  have "ia_ip ob' = Some (ia_subnet_ip ob)" "ia_separate_mac ob' = Some JNull"
    "ia_subnet_ip ob' = ia_subnet_ip ob" "ia_subnet_addr ob' = Some a"
    by auto
  with f d a show ?thesis by blast
qed

lemma update_info_subnet_refresh_sent:
  assumes "ia_subnet_ip ob \<noteq> JNull" "ia_subnet_addr ob = Some a"
  shows "sent (snd (snd (IpAddress_update_info T JNull ob m))) = sent m @ [Get (SubnetPath a)]"
  using assms
  by (auto simp: IpAddress_update_info_def fetch_none Let_def split: prod.splits sum.splits)

text \<open>
  Claim C9. An \<open>IpAddress\<close> built with a \<^verbatim>\<open>subnet_ip\<close> keeps the network address
  of the document in \<^verbatim>\<open>_subnet_addr\<close> and shows the member address: after the
  constructor, and after every \<^verbatim>\<open>update_info\<close> that returns, \<^verbatim>\<open>ip\<close> is the member
  address and \<^verbatim>\<open>separate_mac\<close> is \<^verbatim>\<open>None\<close>; and \<^verbatim>\<open>update_info()\<close> without a
  document sends exactly one request, for the subnet path of the stored network
  address.
\<close>

theorem subnet_member_keeps_network_address:
  assumes sub: "subnet_ip \<noteq> JNull"
  shows
    "(result \<noteq> JNull \<and> IpAddress_init T result subnet_ip n = (Inr ob, n') \<longrightarrow>
        n' = n \<and> ia_subnet_ip ob = subnet_ip \<and> ia_ip ob = Some subnet_ip
        \<and> ia_separate_mac ob = Some JNull
        \<and> (\<exists>data a. getitem result ''subnet'' = Inr data \<and> getitem data ''ip'' = Inr a
              \<and> ia_subnet_addr ob = Some a))
     \<and> (ia_subnet_ip ob1 = subnet_ip \<and> IpAddress_update_info T res ob1 m = (Inr (), ob2, m') \<longrightarrow>
        ia_subnet_ip ob2 = subnet_ip \<and> ia_ip ob2 = Some subnet_ip
        \<and> ia_separate_mac ob2 = Some JNull)
     \<and> (ia_subnet_ip ob1 = subnet_ip \<and> ia_subnet_addr ob1 = Some a1 \<longrightarrow>
        sent (snd (snd (IpAddress_update_info T JNull ob1 m))) = sent m @ [Get (SubnetPath a1)])"
proof -
  have init: "n' = n \<and> ia_subnet_ip ob = subnet_ip \<and> ia_ip ob = Some subnet_ip
        \<and> ia_separate_mac ob = Some JNull
        \<and> (\<exists>data a. getitem result ''subnet'' = Inr data \<and> getitem data ''ip'' = Inr a
              \<and> ia_subnet_addr ob = Some a)"
    if r: "result \<noteq> JNull" and i: "IpAddress_init T result subnet_ip n = (Inr ob, n')"
  proof -
    from i have u: "IpAddress_update_info T result (IpAddress_blank subnet_ip) n = (Inr (), ob, n')"
      by (auto simp: IpAddress_init_def split: prod.splits sum.splits)
    have b: "ia_subnet_ip (IpAddress_blank subnet_ip) = subnet_ip"
      by (simp add: IpAddress_blank_def)
    from update_info_subnet_result [OF _ u] b sub
    show ?thesis by (auto simp: fetch_given [OF r])
  qed
  have upd: "ia_subnet_ip ob2 = subnet_ip \<and> ia_ip ob2 = Some subnet_ip
        \<and> ia_separate_mac ob2 = Some JNull"
    if "ia_subnet_ip ob1 = subnet_ip" "IpAddress_update_info T res ob1 m = (Inr (), ob2, m')"
    using update_info_subnet_result [OF _ that(2)] that(1) sub by auto
  have refresh: "sent (snd (snd (IpAddress_update_info T JNull ob1 m)))
        = sent m @ [Get (SubnetPath a1)]"
    if "ia_subnet_ip ob1 = subnet_ip" "ia_subnet_addr ob1 = Some a1"
    using update_info_subnet_refresh_sent [OF _ that(2)] that(1) sub by auto
  from init upd refresh show ?thesis by blast
qed

lemmas ip_eval = IpAddress_init_def IpAddress_update_info_def IpAddress_assign_def
  IpAddress_blank_def fetch_if_none_def conn_get_def conn_call_def answering_conn_def
  raising_conn_def subnet_doc_def ip_doc_def member_ip_def

theorem subnet_member_keeps_network_address_witness:
  "JStr ''10.0.0.5'' \<noteq> JNull \<and> subnet_doc \<noteq> JNull
   \<and> IpAddress_init (answering_conn subnet_doc) subnet_doc (JStr ''10.0.0.5'')
        \<lparr>world = (), sent = []\<rparr> = (Inr member_ip, \<lparr>world = (), sent = []\<rparr>)
   \<and> ia_ip member_ip = Some (JStr ''10.0.0.5'')
   \<and> ia_separate_mac member_ip = Some JNull
   \<and> ia_subnet_addr member_ip = Some (JStr ''10.0.0.0'')
   \<and> IpAddress_update_info (answering_conn subnet_doc) JNull member_ip
        \<lparr>world = (), sent = []\<rparr>
      = (Inr (), member_ip, \<lparr>world = (), sent = [Get (SubnetPath (JStr ''10.0.0.0''))]\<rparr>)"
proof -
  let ?n = "\<lparr>world = (), sent = []\<rparr>"
  let ?T = "answering_conn subnet_doc"
  have s: "JStr ''10.0.0.5'' \<noteq> JNull" by simp
  have i: "IpAddress_init ?T subnet_doc (JStr ''10.0.0.5'') ?n = (Inr member_ip, ?n)"
    by (simp add: ip_eval)
  have u: "IpAddress_update_info ?T JNull member_ip ?n
      = (Inr (), member_ip, \<lparr>world = (), sent = [Get (SubnetPath (JStr ''10.0.0.0''))]\<rparr>)"
    by (simp add: ip_eval)
  note t = subnet_member_keeps_network_address [OF s, where T = ?T and result = subnet_doc
      and n = ?n and n' = ?n and ob = member_ip and ?ob1.0 = member_ip and res = JNull and m = ?n
      and ?ob2.0 = member_ip and m' = "\<lparr>world = (), sent = [Get (SubnetPath (JStr ''10.0.0.0''))]\<rparr>"
      and ?a1.0 = "JStr ''10.0.0.0''"]
  show ?thesis using t i u by (simp add: member_ip_def subnet_doc_def)
qed

section \<open>Properties of the refresh pattern and of Subnet\<close>

lemma fetch_answer:
  "conn_answer T (world n) (Get (mk a)) = (Inr doc, w') \<Longrightarrow>
     fetch_if_none T JNull name (Some a) mk n
       = (Inr doc, \<lparr>world = w', sent = sent n @ [Get (mk a)]\<rparr>)"
  by (simp add: fetch_none)

lemma round_trip_ip_direct:
  assumes "ia_subnet_ip ob = JNull" "ia_ip ob = Some a"
    "conn_answer T (world n) (Get (IpPath a)) = (Inr doc, w')" "doc \<noteq> JNull"
  shows "round_trip (IpAddress_update_info T) doc ob m n (IpPath a) w'"
  using assms
  by (simp add: round_trip_def IpAddress_update_info_def fetch_given fetch_answer
      split: prod.splits sum.splits)

lemma round_trip_ip_member:
  assumes "ia_subnet_ip ob \<noteq> JNull" "ia_subnet_addr ob = Some a"
    "conn_answer T (world n) (Get (SubnetPath a)) = (Inr doc, w')" "doc \<noteq> JNull"
  shows "round_trip (IpAddress_update_info T) doc ob m n (SubnetPath a) w'"
  using assms
  by (simp add: round_trip_def IpAddress_update_info_def fetch_given fetch_answer Let_def
      split: prod.splits sum.splits)

lemma round_trip_subnet:
  assumes "sn_net_ip ob = Some a"
    "conn_answer T (world n) (Get (SubnetPath a)) = (Inr doc, w')" "doc \<noteq> JNull"
  shows "round_trip (Subnet_update_info M T) doc ob m n (SubnetPath a) w'"
  using assms
  by (simp add: round_trip_def Subnet_update_info_def fetch_given fetch_answer
      split: prod.splits sum.splits)

lemma round_trip_server:
  assumes "srv_ip ob = Some a"
    "conn_answer T (world n) (Get (ServerPath a)) = (Inr doc, w')" "doc \<noteq> JNull"
  shows "round_trip (Server_update_info strptime T) doc ob m n (ServerPath a) w'"
  using assms
  by (simp add: round_trip_def Server_update_info_def fetch_given fetch_answer Let_def
      split: prod.splits sum.splits)

text \<open>
  Claim C8. For an \<open>IpAddress\<close> (owned directly or member of a subnet), a \<open>Subnet\<close>
  and a \<open>Server\<close> whose identity field is set: when the transport answers the
  object's own path with the document \<open>doc\<close>, \<^verbatim>\<open>update_info(doc)\<close> and
  \<^verbatim>\<open>update_info()\<close> end with the same outcome and the same field values; the first
  sends nothing and the second sends exactly that one request.
\<close>

theorem update_info_round_trip:
  assumes "doc \<noteq> JNull"
  shows
    "(ia_subnet_ip ip = JNull \<and> ia_ip ip = Some a
        \<and> conn_answer T (world n) (Get (IpPath a)) = (Inr doc, w') \<longrightarrow>
        round_trip (IpAddress_update_info T) doc ip m n (IpPath a) w')
     \<and> (ia_subnet_ip ip \<noteq> JNull \<and> ia_subnet_addr ip = Some a
        \<and> conn_answer T (world n) (Get (SubnetPath a)) = (Inr doc, w') \<longrightarrow>
        round_trip (IpAddress_update_info T) doc ip m n (SubnetPath a) w')
     \<and> (sn_net_ip subnet = Some a
        \<and> conn_answer T (world n) (Get (SubnetPath a)) = (Inr doc, w') \<longrightarrow>
        round_trip (Subnet_update_info M T) doc subnet m n (SubnetPath a) w')
     \<and> (srv_ip server = Some a
        \<and> conn_answer T (world n) (Get (ServerPath a)) = (Inr doc, w') \<longrightarrow>
        round_trip (Server_update_info strptime T) doc server m n (ServerPath a) w')"
  using assms
  by (auto intro!: round_trip_ip_direct round_trip_ip_member round_trip_subnet
      round_trip_server)

lemmas subnet_eval = Subnet_init_def Subnet_update_info_def Subnet_assign_def Subnet_numeric_def
  Subnet_blank_def getattr_def fetch_if_none_def conn_get_def conn_call_def answering_conn_def
  subnet_doc_def subnet_10_def ipv4_addr_def parse_ipv4_def decimal_def digit_def Let_def

lemmas server_eval = Server_init_def Server_update_info_def Server_assign_def Server_select_ip_def
  Server_blank_def getattr_def fetch_if_none_def conn_get_def conn_call_def answering_conn_def
  server_doc_def server_entry_def server_321_def decimal_def digit_def Let_def

lemma subnet_10_init:
  "Subnet_init ipv4_addr (answering_conn subnet_doc) subnet_doc \<lparr>world = (), sent = []\<rparr>
     = (Inr subnet_10, \<lparr>world = (), sent = []\<rparr>)"
  by (simp add: subnet_eval)

lemma server_321_init:
  "Server_init ymd_strptime (answering_conn server_doc) server_doc \<lparr>world = (), sent = []\<rparr>
     = (Inr server_321, \<lparr>world = (), sent = []\<rparr>)"
  by (simp add: server_eval)

lemma subnet_10_refresh:
  "Subnet_update_info ipv4_addr (answering_conn subnet_doc) JNull subnet_10 \<lparr>world = (), sent = []\<rparr>
     = (Inr (), subnet_10, \<lparr>world = (), sent = [Get (SubnetPath (JStr ''10.0.0.0''))]\<rparr>)"
  by (simp add: subnet_eval)

lemma server_321_refresh:
  "Server_update_info ymd_strptime (answering_conn server_doc) JNull server_321
       \<lparr>world = (), sent = []\<rparr>
     = (Inr (), server_321, \<lparr>world = (), sent = [Get (ServerPath (JStr ''192.0.2.7''))]\<rparr>)"
  by (simp add: server_eval)

lemma direct_ip_refresh:
  "IpAddress_update_info (answering_conn ip_doc) JNull direct_ip \<lparr>world = (), sent = []\<rparr>
     = (Inr (), direct_ip, \<lparr>world = (), sent = [Get (IpPath (JStr ''192.0.2.7''))]\<rparr>)"
  by (simp add: ip_eval direct_ip_def)

theorem update_info_round_trip_witness:
  "ip_doc \<noteq> JNull \<and> subnet_doc \<noteq> JNull \<and> server_doc \<noteq> JNull
   \<and> ia_subnet_ip direct_ip = JNull \<and> ia_ip direct_ip = Some (JStr ''192.0.2.7'')
   \<and> round_trip (IpAddress_update_info (answering_conn ip_doc)) ip_doc direct_ip
        \<lparr>world = (), sent = []\<rparr> \<lparr>world = (), sent = []\<rparr> (IpPath (JStr ''192.0.2.7'')) ()
   \<and> IpAddress_update_info (answering_conn ip_doc) JNull direct_ip \<lparr>world = (), sent = []\<rparr>
      = (Inr (), direct_ip, \<lparr>world = (), sent = [Get (IpPath (JStr ''192.0.2.7''))]\<rparr>)
   \<and> ia_subnet_ip member_ip \<noteq> JNull \<and> ia_subnet_addr member_ip = Some (JStr ''10.0.0.0'')
   \<and> round_trip (IpAddress_update_info (answering_conn subnet_doc)) subnet_doc member_ip
        \<lparr>world = (), sent = []\<rparr> \<lparr>world = (), sent = []\<rparr> (SubnetPath (JStr ''10.0.0.0'')) ()
   \<and> sn_net_ip subnet_10 = Some (JStr ''10.0.0.0'')
   \<and> round_trip (Subnet_update_info ipv4_addr (answering_conn subnet_doc)) subnet_doc subnet_10
        \<lparr>world = (), sent = []\<rparr> \<lparr>world = (), sent = []\<rparr> (SubnetPath (JStr ''10.0.0.0'')) ()
   \<and> Subnet_update_info ipv4_addr (answering_conn subnet_doc) JNull subnet_10
        \<lparr>world = (), sent = []\<rparr>
      = (Inr (), subnet_10, \<lparr>world = (), sent = [Get (SubnetPath (JStr ''10.0.0.0''))]\<rparr>)
   \<and> srv_ip server_321 = Some (JStr ''192.0.2.7'')
   \<and> round_trip (Server_update_info ymd_strptime (answering_conn server_doc)) server_doc
        server_321 \<lparr>world = (), sent = []\<rparr> \<lparr>world = (), sent = []\<rparr>
        (ServerPath (JStr ''192.0.2.7'')) ()
   \<and> Server_update_info ymd_strptime (answering_conn server_doc) JNull server_321
        \<lparr>world = (), sent = []\<rparr>
      = (Inr (), server_321, \<lparr>world = (), sent = [Get (ServerPath (JStr ''192.0.2.7''))]\<rparr>)"
proof -
  let ?n = "\<lparr>world = (), sent = []\<rparr>"
  have d: "ip_doc \<noteq> JNull" "subnet_doc \<noteq> JNull" "server_doc \<noteq> JNull"
    by (simp_all add: ip_doc_def subnet_doc_def server_doc_def)
  note a = update_info_round_trip [OF d(1), where T = "answering_conn ip_doc" and ip = direct_ip
      and a = "JStr ''192.0.2.7''" and n = ?n and m = ?n and w' = "()", THEN conjunct1]
  note b = update_info_round_trip [OF d(2), where T = "answering_conn subnet_doc"
      and ip = member_ip and a = "JStr ''10.0.0.0''" and n = ?n and m = ?n and w' = "()",
      THEN conjunct2, THEN conjunct1]
  note c = update_info_round_trip [OF d(2), where T = "answering_conn subnet_doc"
      and subnet = subnet_10 and M = ipv4_addr and a = "JStr ''10.0.0.0''" and n = ?n and m = ?n
      and w' = "()", THEN conjunct2, THEN conjunct2, THEN conjunct1]
  note e = update_info_round_trip [OF d(3), where T = "answering_conn server_doc"
      and server = server_321 and strptime = ymd_strptime and a = "JStr ''192.0.2.7''"
      and n = ?n and m = ?n and w' = "()", THEN conjunct2, THEN conjunct2, THEN conjunct2]
  have h: "ia_subnet_ip direct_ip = JNull" "ia_ip direct_ip = Some (JStr ''192.0.2.7'')"
    "ia_subnet_ip member_ip \<noteq> JNull" "ia_subnet_addr member_ip = Some (JStr ''10.0.0.0'')"
    "sn_net_ip subnet_10 = Some (JStr ''10.0.0.0'')" "srv_ip server_321 = Some (JStr ''192.0.2.7'')"
    by (simp_all add: direct_ip_def member_ip_def subnet_10_def server_321_def)
  have ans: "conn_answer (answering_conn doc) (world ?n) rq = (Inr doc, ())" for doc rq
    by (simp add: answering_conn_def)
  show ?thesis
    using a b c e d h ans direct_ip_refresh subnet_10_refresh server_321_refresh by simp
qed

text \<open>
  Claim C4, evaluated on the code. The subnet built from the document for
  \<^verbatim>\<open>10.0.0.0/24\<close> has the range from 167772160 to 167772415, and \<^verbatim>\<open>10.0.0.5\<close>
  parses to 167772165, inside it. The membership test raises \<^verbatim>\<open>AttributeError\<close> all
  the same, for the three addresses of the claim, and so does \<^verbatim>\<open>get_ip\<close>: the
  parameter \<^verbatim>\<open>addr\<close> hides the module of that name. With the name standing for
  the module, the same body gives the three answers of the claim.
\<close>

theorem subnet_contains_raises:
  "Subnet_init ipv4_addr (answering_conn subnet_doc) subnet_doc \<lparr>world = (), sent = []\<rparr>
     = (Inr subnet_10, \<lparr>world = (), sent = []\<rparr>)
   \<and> sn_numeric_range subnet_10 = Some (167772160, 167772415)
   \<and> parse_ipaddr ipv4_addr (JStr ''10.0.0.5'') False = Inr 167772165
   \<and> Subnet_contains ipv4_addr subnet_10 (JStr ''10.0.0.5'') = Inl (AttributeError ''parse_ipaddr'')
   \<and> Subnet_contains ipv4_addr subnet_10 (JStr ''10.0.0.255'')
        = Inl (AttributeError ''parse_ipaddr'')
   \<and> Subnet_contains ipv4_addr subnet_10 (JStr ''10.0.1.0'') = Inl (AttributeError ''parse_ipaddr'')
   \<and> fst (Subnet_get_ip ipv4_addr (answering_conn subnet_doc) subnet_10 (JStr ''10.0.0.5'')
        \<lparr>world = (), sent = []\<rparr>) = Inl (AttributeError ''parse_ipaddr'')
   \<and> Subnet_contains_as_specified ipv4_addr subnet_10 (JStr ''10.0.0.5'') = Inr True
   \<and> Subnet_contains_as_specified ipv4_addr subnet_10 (JStr ''10.0.0.255'') = Inr True
   \<and> Subnet_contains_as_specified ipv4_addr subnet_10 (JStr ''10.0.1.0'') = Inr False"
proof -
  have code: "Subnet_contains ipv4_addr subnet_10 a = Inl (AttributeError ''parse_ipaddr'')" for a
    by (simp add: Subnet_contains_def Subnet_contains_body_def)
  have get: "fst (Subnet_get_ip ipv4_addr (answering_conn subnet_doc) subnet_10 (JStr ''10.0.0.5'')
        \<lparr>world = (), sent = []\<rparr>) = Inl (AttributeError ''parse_ipaddr'')"
    by (simp add: Subnet_get_ip_def code)
  have rng: "sn_numeric_range subnet_10 = Some (167772160, 167772415)"
    by (simp add: subnet_10_def)
  have num: "parse_ipaddr ipv4_addr (JStr ''10.0.0.5'') False = Inr 167772165"
    by (simp add: ipv4_addr_def parse_ipv4_def decimal_def digit_def)
  have spec: "Subnet_contains_as_specified ipv4_addr subnet_10 (JStr ''10.0.0.5'') = Inr True"
    "Subnet_contains_as_specified ipv4_addr subnet_10 (JStr ''10.0.0.255'') = Inr True"
    "Subnet_contains_as_specified ipv4_addr subnet_10 (JStr ''10.0.1.0'') = Inr False"
    by (simp_all add: Subnet_contains_as_specified_def Subnet_contains_body_def getattr_def
        ipv4_addr_def parse_ipv4_def decimal_def digit_def subnet_10_def)
  from subnet_10_init code get rng num spec show ?thesis by simp
qed

text \<open>The same for every address module, every subnet and every argument.\<close>

lemma subnet_contains_always_raises:
  "Subnet_contains M self a = Inl (AttributeError ''parse_ipaddr'')"
  by (simp add: Subnet_contains_def Subnet_contains_body_def)


section \<open>Properties of Server\<close>

text \<open>
  Claim C2 as stated fails under both readings of "present". With an empty
  \<^verbatim>\<open>server_ip\<close> and an IPv6 network the source takes its second branch, the one
  that the specification calls dead, and keeps the empty string, where the two
  branches on truth values derive the address from the network. With \<^verbatim>\<open>server_ip\<close>
  \<^verbatim>\<open>None\<close> and an empty network the source gives \<^verbatim>\<open>None\<close>, where the two branches
  on \<^verbatim>\<open>is not None\<close> derive an address.
\<close>

theorem select_ip_not_two_branch_counterexample:
  "Server_select_ip (server_entry (JStr '''') (JStr ''2001:db8:0:1::'')) = Inr (JStr '''')
   \<and> select_ip_two_branch truthy (server_entry (JStr '''') (JStr ''2001:db8:0:1::''))
       = Inr (JStr ''2001:db8:0:1::2'')
   \<and> Server_select_ip (server_entry JNull (JStr '''')) = Inr JNull
   \<and> select_ip_two_branch not_none (server_entry JNull (JStr '''')) = Inr (JStr ''2'')"
  by (simp add: Server_select_ip_def select_ip_two_branch_def server_entry_def not_none_def)

lemma Server_assign_ip:
  "Server_assign data ob = (r, ob') \<Longrightarrow> srv_ip ob' = srv_ip ob"
  by (auto simp: Server_assign_def split: sum.splits)

lemma Server_update_info_ip:
  assumes "fetch_if_none T result ''ip'' (srv_ip ob) ServerPath n = (Inr doc, n')"
    "getitem doc ''server'' = Inr data" "Server_select_ip data = Inr ip"
  shows "srv_ip (fst (snd (Server_update_info strptime T result ob n))) = Some ip"
proof -
  obtain r ob1 where a: "Server_assign data (ob\<lparr>srv_ip := Some ip\<rparr>) = (r, ob1)"
    by (cases "Server_assign data (ob\<lparr>srv_ip := Some ip\<rparr>)")
  from Server_assign_ip [OF a] have "srv_ip ob1 = Some ip" by simp
  with assms a show ?thesis
    by (simp add: Server_update_info_def Let_def split: sum.splits)
qed

text \<open>
  Claim C2, as amended. For the document that \<^verbatim>\<open>update_info\<close> was given or has
  fetched: a \<^verbatim>\<open>server_ip\<close> that is not \<^verbatim>\<open>None\<close> becomes \<^verbatim>\<open>ip\<close>, also when it is
  empty; with \<^verbatim>\<open>server_ip\<close> \<^verbatim>\<open>None\<close>, a non-empty string \<^verbatim>\<open>server_ipv6_net\<close>
  gives \<^verbatim>\<open>ip\<close> as that string followed by \<^verbatim>\<open>2\<close>, and a \<^verbatim>\<open>server_ipv6_net\<close> that
  is \<^verbatim>\<open>None\<close> or otherwise false gives \<^verbatim>\<open>ip = None\<close>. The address is assigned
  before the other fields, so it holds whatever happens to them.
\<close>

theorem server_ip_selection:
  assumes fetched: "fetch_if_none T result ''ip'' (srv_ip ob) ServerPath n = (Inr doc, n')"
    and data: "getitem doc ''server'' = Inr data"
  shows
    "(getitem data ''server_ip'' = Inr x \<and> x \<noteq> JNull \<longrightarrow>
        srv_ip (fst (snd (Server_update_info strptime T result ob n))) = Some x)
     \<and> (getitem data ''server_ip'' = Inr JNull
        \<and> getitem data ''server_ipv6_net'' = Inr (JStr s) \<and> s \<noteq> [] \<longrightarrow>
        srv_ip (fst (snd (Server_update_info strptime T result ob n))) = Some (JStr (s @ ''2'')))
     \<and> (getitem data ''server_ip'' = Inr JNull
        \<and> getitem data ''server_ipv6_net'' = Inr y \<and> \<not> truthy y \<longrightarrow>
        srv_ip (fst (snd (Server_update_info strptime T result ob n))) = Some JNull)"
proof -
  have a: "Server_select_ip data = Inr x" if "getitem data ''server_ip'' = Inr x" "x \<noteq> JNull"
    using that by (simp add: Server_select_ip_def)
  have b: "Server_select_ip data = Inr (JStr (s @ ''2''))"
    if "getitem data ''server_ip'' = Inr JNull" "getitem data ''server_ipv6_net'' = Inr (JStr s)"
      "s \<noteq> []"
    using that by (simp add: Server_select_ip_def)
  have c: "Server_select_ip data = Inr JNull"
    if "getitem data ''server_ip'' = Inr JNull" "getitem data ''server_ipv6_net'' = Inr y"
      "\<not> truthy y"
    using that by (simp add: Server_select_ip_def)
  show ?thesis
    using Server_update_info_ip [OF fetched data a]
      Server_update_info_ip [OF fetched data b] Server_update_info_ip [OF fetched data c]
    by blast
qed

theorem server_ip_selection_witness:
  "getitem (server_entry (JStr '''') (JStr ''2001:db8:0:1::'')) ''server_ip'' = Inr (JStr '''')
   \<and> JStr '''' \<noteq> JNull
   \<and> srv_ip (fst (snd (Server_update_info ymd_strptime (answering_conn JNull)
        (JObj [(''server'', server_entry (JStr '''') (JStr ''2001:db8:0:1::''))])
        Server_blank \<lparr>world = (), sent = []\<rparr>))) = Some (JStr '''')
   \<and> getitem (server_entry JNull (JStr ''2001:db8:0:1::'')) ''server_ip'' = Inr JNull
   \<and> getitem (server_entry JNull (JStr ''2001:db8:0:1::'')) ''server_ipv6_net''
       = Inr (JStr ''2001:db8:0:1::'')
   \<and> srv_ip (fst (snd (Server_update_info ymd_strptime
        (answering_conn (JObj [(''server'', server_entry JNull (JStr ''2001:db8:0:1::''))]))
        JNull server_321 \<lparr>world = (), sent = []\<rparr>))) = Some (JStr ''2001:db8:0:1::2'')
   \<and> getitem (server_entry JNull JNull) ''server_ipv6_net'' = Inr JNull
   \<and> \<not> truthy JNull
   \<and> srv_ip (fst (snd (Server_update_info ymd_strptime (answering_conn JNull)
        (JObj [(''server'', server_entry JNull JNull)])
        Server_blank \<lparr>world = (), sent = []\<rparr>))) = Some JNull"
proof -
  let ?n = "\<lparr>world = (), sent = []\<rparr>"
  let ?A = "server_entry (JStr '''') (JStr ''2001:db8:0:1::'')"
  let ?B = "server_entry JNull (JStr ''2001:db8:0:1::'')"
  let ?C = "server_entry JNull JNull"
  have fa: "fetch_if_none (answering_conn JNull) (JObj [(''server'', ?A)]) ''ip''
      (srv_ip Server_blank) ServerPath ?n = (Inr (JObj [(''server'', ?A)]), ?n)"
    by (simp add: fetch_if_none_def)
  have fb: "fetch_if_none (answering_conn (JObj [(''server'', ?B)])) JNull ''ip''
      (srv_ip server_321) ServerPath ?n
      = (Inr (JObj [(''server'', ?B)]),
         \<lparr>world = (), sent = [Get (ServerPath (JStr ''192.0.2.7''))]\<rparr>)"
    by (simp add: fetch_if_none_def server_321_def conn_get_def conn_call_def answering_conn_def)
  have fc: "fetch_if_none (answering_conn JNull) (JObj [(''server'', ?C)]) ''ip''
      (srv_ip Server_blank) ServerPath ?n = (Inr (JObj [(''server'', ?C)]), ?n)"
    by (simp add: fetch_if_none_def)
  have g: "getitem (JObj [(''server'', e)]) ''server'' = Inr e" for e by simp
  have ga: "getitem ?A ''server_ip'' = Inr (JStr '''')"
    "getitem ?B ''server_ip'' = Inr JNull"
    "getitem ?B ''server_ipv6_net'' = Inr (JStr ''2001:db8:0:1::'')"
    "getitem ?C ''server_ip'' = Inr JNull"
    "getitem ?C ''server_ipv6_net'' = Inr JNull"
    by (simp_all add: server_entry_def)
  note a = server_ip_selection [OF fa g, where x = "JStr ''''" and strptime = ymd_strptime,
      THEN conjunct1]
  note b = server_ip_selection [OF fb g, where s = "''2001:db8:0:1::''"
      and strptime = ymd_strptime, THEN conjunct2, THEN conjunct1]
  note c = server_ip_selection [OF fc g, where y = JNull and strptime = ymd_strptime,
      THEN conjunct2, THEN conjunct2]
  show ?thesis using a b c ga by simp
qed

lemma Server_assign_fields:
  assumes "Server_assign data ob = (Inr (), ob')"
  shows "\<exists>num v. getitem data ''server_number'' = Inr num \<and> srv_number ob' = Some num
      \<and> getitem data ''subnet'' = Inr v \<and> srv_subnets ob' = Some v"
  using assms by (auto simp: Server_assign_def split: sum.splits)

lemma Server_update_info_fields:
  assumes "Server_update_info strptime T result ob n = (Inr (), ob', n')" "result \<noteq> JNull"
  shows "n' = n \<and> (\<exists>data ip num v. getitem result ''server'' = Inr data
      \<and> Server_select_ip data = Inr ip \<and> srv_ip ob' = Some ip
      \<and> getitem data ''server_number'' = Inr num \<and> srv_number ob' = Some num
      \<and> getitem data ''subnet'' = Inr v \<and> srv_subnets ob' = Some v)
    \<and> srv_rescue ob' = srv_rescue ob \<and> srv_ips ob' = srv_ips ob
    \<and> srv_admin_account ob' = srv_admin_account ob"
proof -
  from assms obtain data ip ob1 where
    d: "getitem result ''server'' = Inr data" and s: "Server_select_ip data = Inr ip"
    and a: "Server_assign data (ob\<lparr>srv_ip := Some ip\<rparr>) = (Inr (), ob1)"
    and n: "n' = n"
    and rest: "srv_ip ob' = srv_ip ob1" "srv_number ob' = srv_number ob1"
      "srv_subnets ob' = srv_subnets ob1" "srv_rescue ob' = srv_rescue ob1"
      "srv_ips ob' = srv_ips ob1" "srv_admin_account ob' = srv_admin_account ob1"
    by (auto simp: Server_update_info_def fetch_if_none_def Let_def split: sum.splits prod.splits)
  from a have keep: "srv_rescue ob1 = srv_rescue ob" "srv_ips ob1 = srv_ips ob"
    "srv_admin_account ob1 = srv_admin_account ob"
    by (auto simp: Server_assign_def split: sum.splits)
  from Server_assign_ip [OF a] have i: "srv_ip ob1 = Some ip" by simp
  from Server_assign_fields [OF a] d s n rest keep i show ?thesis by auto
qed

text \<open>
  Claim C3, as amended. A \<open>Server\<close> built from a document, without any request,
  owns one \<open>RescueSystem\<close> with nothing cached and one \<open>IpManager\<close> for the resolved
  address; \<^verbatim>\<open>subnets\<close> is the \<^verbatim>\<open>subnet\<close> entry of the document as it came, and
  no \<open>SubnetManager\<close> is built. \<^verbatim>\<open>_admin_account\<close> starts as \<^verbatim>\<open>None\<close>: the first
  read of \<^verbatim>\<open>admin\<close> builds the \<open>AdminAccount\<close> for the server number (running
  discovery) and keeps it, and a read with an account in place returns that account
  and sends nothing.
\<close>

theorem server_owns_components:
  assumes built: "Server_init strptime T result n = (Inr srv, n')"
  shows
    "n' = n
     \<and> srv_rescue srv = Some RescueSystem_init
     \<and> (\<exists>ip. srv_ip srv = Some ip \<and> srv_ips srv = Some \<lparr>im_main_ip = ip\<rparr>)
     \<and> (\<exists>data v. getitem result ''server'' = Inr data \<and> getitem data ''subnet'' = Inr v
           \<and> srv_subnets srv = Some v)
     \<and> srv_admin_account srv = None
     \<and> (\<exists>number. srv_number srv = Some number
           \<and> Server_admin T srv m =
               (case AdminAccount_init T number m of
                  (Inl e, m') \<Rightarrow> (Inl e, srv, m')
                | (Inr acct, m') \<Rightarrow> (Inr acct, srv\<lparr>srv_admin_account := Some acct\<rparr>, m'))
           \<and> (\<forall>acct. Server_admin T (srv\<lparr>srv_admin_account := Some acct\<rparr>) m
                 = (Inr acct, srv\<lparr>srv_admin_account := Some acct\<rparr>, m)))"
proof -
  have nn: "result \<noteq> JNull"
    using built
    by (auto simp: Server_init_def Server_update_info_def fetch_if_none_def Server_blank_def
        split: prod.splits sum.splits)
  from built obtain ob ip where
    u: "Server_update_info strptime T result Server_blank n = (Inr (), ob, n')"
    and i: "srv_ip ob = Some ip"
    and srv: "srv = ob\<lparr>srv_rescue := Some RescueSystem_init,
        srv_ips := Some \<lparr>im_main_ip = ip\<rparr>, srv_admin_account := None\<rparr>"
    by (auto simp: Server_init_def getattr_def split: prod.splits sum.splits option.splits)
  from Server_update_info_fields [OF u nn] obtain data num v where
    f: "n' = n" "getitem result ''server'' = Inr data" "srv_number ob = Some num"
      "getitem data ''subnet'' = Inr v" "srv_subnets ob = Some v"
    by auto
  have adm: "Server_admin T srv m =
      (case AdminAccount_init T num m of
         (Inl e, m') \<Rightarrow> (Inl e, srv, m')
       | (Inr acct, m') \<Rightarrow> (Inr acct, srv\<lparr>srv_admin_account := Some acct\<rparr>, m'))"
    using f(3) by (simp add: Server_admin_def srv getattr_def split: prod.splits sum.splits)
  have again: "Server_admin T (srv\<lparr>srv_admin_account := Some acct\<rparr>) m
      = (Inr acct, srv\<lparr>srv_admin_account := Some acct\<rparr>, m)" for acct
    by (simp add: Server_admin_def)
  from f i adm again show ?thesis by (simp add: srv)
qed

lemma server_321_init_any:
  "Server_init ymd_strptime T server_doc n = (Inr server_321, n)"
  by (simp add: server_eval)

text \<open>
  Claim C3 as stated fails: after the constructor, \<^verbatim>\<open>subnets\<close> holds the list of
  subnet descriptors of the document, a decoded value and not a \<open>SubnetManager\<close>; the
  only manager attached is the \<open>IpManager\<close>.
\<close>

theorem server_subnets_raw_counterexample:
  "Server_init ymd_strptime (answering_conn server_doc) server_doc \<lparr>world = (), sent = []\<rparr>
     = (Inr server_321, \<lparr>world = (), sent = []\<rparr>)
   \<and> srv_subnets server_321
     = Some (JList [JObj [(''ip'', JStr ''2001:db8:0:1::''), (''mask'', JStr ''64'')]])
   \<and> srv_ips server_321 = Some \<lparr>im_main_ip = JStr ''192.0.2.7''\<rparr>"
  by (simp add: server_321_init_any) (simp add: server_321_def)

theorem server_owns_components_witness:
  "Server_init ymd_strptime scripted_scraper server_doc \<lparr>world = [page present_page], sent = []\<rparr>
     = (Inr server_321, \<lparr>world = [page present_page], sent = []\<rparr>)
   \<and> srv_rescue server_321 = Some RescueSystem_init
   \<and> srv_ip server_321 = Some (JStr ''192.0.2.7'')
   \<and> srv_ips server_321 = Some \<lparr>im_main_ip = JStr ''192.0.2.7''\<rparr>
   \<and> srv_subnets server_321
     = Some (JList [JObj [(''ip'', JStr ''2001:db8:0:1::''), (''mask'', JStr ''64'')]])
   \<and> srv_admin_account server_321 = None
   \<and> Server_admin scripted_scraper server_321 \<lparr>world = [page present_page], sent = []\<rparr>
     = (Inr admin_4711, server_321\<lparr>srv_admin_account := Some admin_4711\<rparr>,
        \<lparr>world = [],
         sent = [ScraperLogin, ScraperRequest (AdminPath (JInt 321)) None None]\<rparr>)
   \<and> Server_admin scripted_scraper (server_321\<lparr>srv_admin_account := Some admin_4711\<rparr>)
        \<lparr>world = [], sent = [ScraperLogin, ScraperRequest (AdminPath (JInt 321)) None None]\<rparr>
     = (Inr admin_4711, server_321\<lparr>srv_admin_account := Some admin_4711\<rparr>,
        \<lparr>world = [],
         sent = [ScraperLogin, ScraperRequest (AdminPath (JInt 321)) None None]\<rparr>)"
proof -
  let ?n = "\<lparr>world = [page present_page], sent = []\<rparr>"
  let ?n1 = "\<lparr>world = [], sent = [ScraperLogin, ScraperRequest (AdminPath (JInt 321)) None None]\<rparr>"
  have b: "Server_init ymd_strptime scripted_scraper server_doc ?n = (Inr server_321, ?n)"
    by (rule server_321_init_any)
  have a: "AdminAccount_init scripted_scraper (JInt 321) ?n = (Inr admin_4711, ?n1)"
    by (simp add: AdminAccount_init_def admin_4711_def admin_eval)
  have num: "srv_number server_321 = Some (JInt 321)" by (simp add: server_321_def)
  note t1 = server_owns_components [OF b, where m = ?n]
  note t2 = server_owns_components [OF b, where m = ?n1]
  show ?thesis using t1 t2 a b num by (auto simp: server_321_def)
qed


end
